theory Spec2Isabelle
  imports Complex_Main "HOL-Library.AList" "HOL-Library.Multiset"
begin

section \<open>Conventions of the embedding\<close>

text \<open>
  The development embeds the pure control flow of the pose/analysis toolkit:
  \<^verbatim>\<open>web-app/backend/main.py\<close>, \<^verbatim>\<open>video_pose_processor.py\<close>,
  \<^verbatim>\<open>web-app/backend/video_analysis_pipeline.py\<close> and
  \<^verbatim>\<open>web-app/backend/gemini_analyzer.py\<close>.

  \<^item> A Python \<^verbatim>\<open>int\<close> is an \<^typ>\<open>int\<close>; \<^verbatim>\<open>str\<close> is \<^typ>\<open>string\<close>. A Python
    \<^verbatim>\<open>float\<close> that the program computes with where infinities, NaN or rounding can
    change what it does is a \<open>py_float\<close>, and the IEEE operation on it is a
    parameter; a float that is a finite reading (a clock value, a container property,
    a parsed literal) is a \<^typ>\<open>real\<close>.
  \<^item> Library calls the repository does not define (\<^verbatim>\<open>float(str)\<close>, \<^verbatim>\<open>int(str)\<close>,
    \<^verbatim>\<open>pathlib.Path.stem\<close>, OpenCV, ffprobe, the remote analysis service, the clock, the
    file system) are parameters of the functions that call them, so every theorem holds
    for whatever those calls return.
  \<^item> An exception is a value of \<open>py_error\<close>; a function that can raise returns
    \<open>py_error + 'a\<close>, and a \<^verbatim>\<open>try/except\<close> of the source is a case distinction.
\<close>

datatype py_error =
    FileNotFoundError string
  | RuntimeError string
  | ValueError string
  | ZeroDivisionError
  | OverflowError

text \<open>\<^verbatim>\<open>int(x)\<close> on a float truncates toward zero.\<close>

definition py_int :: "real \<Rightarrow> int" where
  "py_int x = (if x < 0 then \<lceil>x\<rceil> else \<lfloor>x\<rfloor>)"

text \<open>A double: a finite value, an infinity or NaN.\<close>

datatype py_float = Finite real | PosInf | NegInf | NaN


text \<open>
  The functions below take the IEEE product and quotient of doubles as parameters
  \<open>fmul\<close> and \<open>fdiv\<close>. For closed examples the parameters are instantiated by
  \<open>float_mul\<close> and \<open>float_div\<close>: the IEEE operation without the rounding of a finite
  result. They agree with the double operation wherever the exact result is itself a
  double (small integers, for instance), wherever its magnitude is at least \<open>2^1024\<close>
  (overflow to an infinity), and on infinities and NaN. \<open>float_div\<close> is only applied to
  a non-zero divisor: Python raises \<^verbatim>\<open>ZeroDivisionError\<close> before dividing by zero.
\<close>

definition float_sign :: "py_float \<Rightarrow> real" where
  "float_sign x = (case x of Finite r \<Rightarrow> sgn r | PosInf \<Rightarrow> 1 | NegInf \<Rightarrow> - 1 | NaN \<Rightarrow> 0)"

definition float_of_real :: "real \<Rightarrow> py_float" where
  "float_of_real r =
     (if \<bar>r\<bar> \<ge> 2 ^ 1024 then (if r > 0 then PosInf else NegInf) else Finite r)"


definition float_div :: "py_float \<Rightarrow> py_float \<Rightarrow> py_float" where
  "float_div x y =
     (case (x, y) of
        (Finite a, Finite b) \<Rightarrow> float_of_real (a / b)
      | (NaN, _) \<Rightarrow> NaN
      | (_, NaN) \<Rightarrow> NaN
      | (Finite a, _) \<Rightarrow> Finite 0
      | (_, Finite b) \<Rightarrow> (if float_sign x * sgn b < 0 then NegInf else PosInf)
      | _ \<Rightarrow> NaN)"

text \<open>\<^verbatim>\<open>s.split(sep)\<close> for a one-character separator: always at least one piece.\<close>

fun split_on :: "char \<Rightarrow> string \<Rightarrow> string list" where
  "split_on sep [] = [[]]"
| "split_on sep (c # cs) =
     (if c = sep then [] # split_on sep cs
      else (case split_on sep cs of
              [] \<Rightarrow> [[c]]
            | p # ps \<Rightarrow> (c # p) # ps))"

section \<open>Timestamp parsing (main.py, \<^verbatim>\<open>timestamp_to_seconds\<close>)\<close>

text \<open>
  What a Python function hands back to its caller when it is annotated \<^verbatim>\<open>-> float\<close>
  but may fall off its end: a float, or \<^verbatim>\<open>None\<close>.
\<close>

datatype py_float_or_none = PyFloat real | PyNone

text \<open>
  \<open>pyfloat\<close> stands for the builtin \<^verbatim>\<open>float\<close> on strings: \<open>None\<close> is its
  \<^verbatim>\<open>ValueError\<close>. The \<^verbatim>\<open>except (ValueError, IndexError)\<close> clause turns that error
  into \<open>0.0\<close>. A colon string whose split has neither two nor three parts matches no
  branch of the \<^verbatim>\<open>if/elif\<close>, so control leaves the \<^verbatim>\<open>try\<close> block and the function
  ends without a \<^verbatim>\<open>return\<close>.
\<close>

definition timestamp_to_seconds :: "(string \<Rightarrow> real option) \<Rightarrow> string \<Rightarrow> py_float_or_none" where
  "timestamp_to_seconds pyfloat timestamp =
     (if CHR '':'' \<in> set timestamp then
        (case split_on CHR '':'' timestamp of
           [minutes, seconds] \<Rightarrow>
             (case pyfloat minutes of
                None \<Rightarrow> PyFloat 0
              | Some m \<Rightarrow>
                  (case pyfloat seconds of
                     None \<Rightarrow> PyFloat 0
                   | Some s \<Rightarrow> PyFloat (m * 60 + s)))
         | [hours, minutes, seconds] \<Rightarrow>
             (case pyfloat hours of
                None \<Rightarrow> PyFloat 0
              | Some h \<Rightarrow>
                  (case pyfloat minutes of
                     None \<Rightarrow> PyFloat 0
                   | Some m \<Rightarrow>
                       (case pyfloat seconds of
                          None \<Rightarrow> PyFloat 0
                        | Some s \<Rightarrow> PyFloat (h * 3600 + m * 60 + s))))
         | _ \<Rightarrow> PyNone)
      else
        (case pyfloat timestamp of
           None \<Rightarrow> PyFloat 0
         | Some v \<Rightarrow> PyFloat v))"

section \<open>OpenCV captures and frame extraction (main.py, \<^verbatim>\<open>extract_frame_at_timestamp\<close>)\<close>

text \<open>
  What \<^verbatim>\<open>cv2.VideoCapture(path)\<close> gives: whether it opened, the container's properties as
  \<^verbatim>\<open>cap.get\<close> reports them (floats), and the frames \<^verbatim>\<open>cap.read()\<close> yields in order until
  it returns \<^verbatim>\<open>ret = False\<close>. The reported frame count and the number of decodable
  frames are separate data: OpenCV takes the former from the container header.
\<close>

record 'f capture =
  is_opened :: bool
  prop_fps :: real
  prop_frame_width :: real
  prop_frame_height :: real
  prop_frame_count :: real
  cap_frames :: "'f list"




section \<open>Rotation metadata and the slow-motion transform (main.py)\<close>

text \<open>
  The part of ffprobe's \<^verbatim>\<open>-show_streams\<close> JSON that \<^verbatim>\<open>get_video_rotation\<close> reads. A key
  that may be absent is an option (\<^verbatim>\<open>.get\<close> supplies the default); \<^verbatim>\<open>rotation\<close> is the
  signed integer ffprobe prints for a display matrix, tag values are strings.
\<close>

record side_data =
  side_data_type :: "string option"
  rotation :: "int option"

record stream =
  codec_type :: "string option"
  side_data_list :: "side_data list"
  tags :: "string \<Rightarrow> string option"

text \<open>
  The outcome of \<^verbatim>\<open>subprocess.run\<close>: the return code and the streams of the parsed
  standard output (\<open>None\<close> when \<^verbatim>\<open>json.loads\<close> raises).
\<close>

record ffprobe_output =
  returncode :: int
  stdout_streams :: "stream list option"

text \<open>The inner loop over \<^verbatim>\<open>side_data_list\<close>: the first display matrix decides.\<close>

fun display_matrix_rotation :: "side_data list \<Rightarrow> int option" where
  "display_matrix_rotation [] = None"
| "display_matrix_rotation (sd # sds) =
     (if side_data_type sd = Some ''Display Matrix''
      then Some (- (case rotation sd of None \<Rightarrow> 0 | Some r \<Rightarrow> r))
      else display_matrix_rotation sds)"

text \<open>
  The outer loop over the streams. \<open>pyint\<close> stands for the builtin \<^verbatim>\<open>int\<close> on strings,
  \<open>None\<close> being its \<^verbatim>\<open>ValueError\<close>, which leaves the loop.
\<close>

fun stream_rotation :: "(string \<Rightarrow> int option) \<Rightarrow> stream list \<Rightarrow> py_error + int" where
  "stream_rotation pyint [] = Inr 0"
| "stream_rotation pyint (st # sts) =
     (if codec_type st = Some ''video'' then
        (case display_matrix_rotation (side_data_list st) of
           Some r \<Rightarrow> Inr r
         | None \<Rightarrow>
             (case tags st ''rotate'' of
                Some v \<Rightarrow>
                  (case pyint v of
                     None \<Rightarrow> Inl (ValueError ''invalid literal for int()'')
                   | Some n \<Rightarrow> Inr n)
              | None \<Rightarrow> stream_rotation pyint sts))
      else stream_rotation pyint sts)"

text \<open>
  \<open>probe = None\<close>: \<^verbatim>\<open>subprocess.run\<close> itself raised. Every exception is caught and
  gives 0.
\<close>

definition get_video_rotation :: "(string \<Rightarrow> int option) \<Rightarrow> ffprobe_output option \<Rightarrow> int" where
  "get_video_rotation pyint probe =
     (case probe of
        None \<Rightarrow> 0
      | Some result \<Rightarrow>
          if returncode result = 0 then
            (case stdout_streams result of
               None \<Rightarrow> 0
             | Some streams \<Rightarrow>
                 (case stream_rotation pyint streams of
                    Inl e \<Rightarrow> 0
                  | Inr r \<Rightarrow> r))
          else 0)"

datatype rotate_code = ROTATE_90_CLOCKWISE | ROTATE_180 | ROTATE_90_COUNTERCLOCKWISE

text \<open>\<open>cv2_rotate\<close> stands for \<^verbatim>\<open>cv2.rotate\<close>.\<close>

definition rotate_frame :: "(rotate_code \<Rightarrow> 'f \<Rightarrow> 'f) \<Rightarrow> 'f \<Rightarrow> int \<Rightarrow> 'f" where
  "rotate_frame cv2_rotate frame angle =
     (if angle = 90 then cv2_rotate ROTATE_90_CLOCKWISE frame
      else if angle = 180 then cv2_rotate ROTATE_180 frame
      else if angle = 270 then cv2_rotate ROTATE_90_COUNTERCLOCKWISE frame
      else frame)"

text \<open>
  A \<^verbatim>\<open>cv2.VideoWriter\<close>: how it was set up, whether it opened, the frames handed to
  \<^verbatim>\<open>out.write\<close> in order, and the frames it encoded. The source never tests
  \<^verbatim>\<open>out.isOpened()\<close>: a writer that did not open drops every frame silently.
\<close>

record 'f video_writer =
  writer_path :: string
  writer_fps :: py_float
  writer_size :: "int \<times> int"
  writer_opened :: bool
  write_calls :: "'f list"
  written :: "'f list"

text \<open>
  The \<^verbatim>\<open>while True\<close> loop of \<^verbatim>\<open>slow_down_video\<close>: one call of \<^verbatim>\<open>out.write\<close> per frame
  read. \<open>writer_accepts\<close> says whether an opened writer of the given size encodes the
  frame.
\<close>

fun write_all_frames ::
    "(rotate_code \<Rightarrow> 'f \<Rightarrow> 'f) \<Rightarrow> (int \<times> int \<Rightarrow> 'f \<Rightarrow> bool) \<Rightarrow> int \<Rightarrow> 'f list
       \<Rightarrow> 'f video_writer \<Rightarrow> 'f video_writer" where
  "write_all_frames cv2_rotate writer_accepts rotation_angle [] out = out"
| "write_all_frames cv2_rotate writer_accepts rotation_angle (frame # rest) out =
     (let frame' = (if rotation_angle \<noteq> 0 then rotate_frame cv2_rotate frame rotation_angle
                    else frame)
      in write_all_frames cv2_rotate writer_accepts rotation_angle rest
           (out\<lparr>write_calls := write_calls out @ [frame'],
                written := (if writer_opened out \<and> writer_accepts (writer_size out) frame'
                            then written out @ [frame'] else written out)\<rparr>))"

text \<open>
  The result is the returned flag and the writer as it was released (\<open>None\<close> when none
  was created). \<^verbatim>\<open>original_fps / slow_factor\<close> raises \<^verbatim>\<open>ZeroDivisionError\<close> for a zero
  factor; the \<^verbatim>\<open>except Exception\<close> clause returns \<^verbatim>\<open>False\<close>. \<open>writer_opens\<close> says
  whether \<^verbatim>\<open>cv2.VideoWriter\<close> opens for the path, frame rate and size it is given.
\<close>

definition slow_down_video ::
    "(string \<Rightarrow> int option) \<Rightarrow> (rotate_code \<Rightarrow> 'f \<Rightarrow> 'f) \<Rightarrow> (py_float \<Rightarrow> py_float \<Rightarrow> py_float)
       \<Rightarrow> (string \<Rightarrow> py_float \<Rightarrow> int \<times> int \<Rightarrow> bool) \<Rightarrow> (int \<times> int \<Rightarrow> 'f \<Rightarrow> bool)
       \<Rightarrow> ffprobe_output option \<Rightarrow> 'f capture \<Rightarrow> string \<Rightarrow> py_float
       \<Rightarrow> bool \<times> 'f video_writer option" where
  "slow_down_video pyint cv2_rotate fdiv writer_opens writer_accepts probe cap output_path
       slow_factor =
     (let rotation_angle = get_video_rotation pyint probe in
      if \<not> is_opened cap then (False, None)
      else
        let original_fps = prop_fps cap;
            width = py_int (prop_frame_width cap);
            height = py_int (prop_frame_height cap);
            output_size = (if rotation_angle = 90 \<or> rotation_angle = 270
                           then (height, width) else (width, height))
        in if slow_factor = Finite 0 then (False, None)
           else
             let new_fps = fdiv (Finite original_fps) slow_factor;
                 out = \<lparr>writer_path = output_path, writer_fps = new_fps,
                        writer_size = output_size,
                        writer_opened = writer_opens output_path new_fps output_size,
                        write_calls = [], written = []\<rparr>
             in (True, Some (write_all_frames cv2_rotate writer_accepts rotation_angle
                               (cap_frames cap) out)))"

section \<open>The frame processing engine (video_pose_processor.py, \<^verbatim>\<open>process_video\<close>)\<close>

text \<open>A detector result is a Python dict; an empty dict is falsy.\<close>

type_synonym 'v pose = "(string \<times> 'v) list"

text \<open>
  The detector interface as the engine uses it, over the detector's own state \<open>'d\<close>
  (a detector may keep temporal state between frames).
\<close>

record ('d, 'f, 'v) pose_estimator =
  pe_initialize :: "'d \<Rightarrow> bool \<times> 'd"
  pe_detect_pose :: "'d \<Rightarrow> 'f \<Rightarrow> 'v pose option \<times> 'd"
  pe_draw_pose :: "'f \<Rightarrow> 'v pose \<Rightarrow> 'f"
  pe_cleanup :: "'d \<Rightarrow> 'd"

record 'v frame_info =
  frame_number :: int
  timestamp :: real
  pose_detected :: bool
  processing_time :: real
  pose_data :: "'v pose option"

text \<open>
  The dict \<^verbatim>\<open>self.stats\<close> after the update at the end of a pass; each field carries the
  dict key after the prefix \<open>stat_\<close>.
\<close>

record video_statistics =
  stat_total_frames :: int
  stat_frames_with_pose :: int
  stat_total_processing_time :: real
  stat_avg_fps :: real
  stat_pose_detection_rate :: real

text \<open>
  The local variables of the frame loop. \<open>ticks\<close> counts the calls of \<^verbatim>\<open>time.time()\<close>
  made so far: the \<open>k\<close>-th call returns \<open>clock k\<close>. \<open>video_out\<close> is what was written
  to the annotating \<^verbatim>\<open>VideoWriter\<close>.
\<close>

record ('d, 'f, 'v) loop_state =
  frame_data :: "'v frame_info list"
  frame_count :: int
  pose_detected_frames :: int
  video_out :: "'f list"
  detector :: 'd
  ticks :: nat

text \<open>
  One iteration per decoded frame (lines 117--162). Two divisions are unguarded in the
  source and raise \<^verbatim>\<open>ZeroDivisionError\<close>: \<^verbatim>\<open>frame_count / fps\<close> for the timestamp, and
  \<^verbatim>\<open>frame_count / total_frames\<close> in the progress report, which runs when the new frame
  count is a multiple of 100 or equals \<^verbatim>\<open>total_frames\<close>. The exception leaves the loop
  through \<^verbatim>\<open>finally\<close> and propagates out of \<^verbatim>\<open>process_video\<close>.
\<close>

fun process_frames ::
    "('d, 'f, 'v) pose_estimator \<Rightarrow> (nat \<Rightarrow> real) \<Rightarrow> bool \<Rightarrow> int \<Rightarrow> int \<Rightarrow> real \<Rightarrow> 'f list
       \<Rightarrow> ('d, 'f, 'v) loop_state \<Rightarrow> py_error + ('d, 'f, 'v) loop_state" where
  "process_frames pe clock save_video fps total_frames start_time [] st = Inr st"
| "process_frames pe clock save_video fps total_frames start_time (frame # rest) st =
     (let frame_start_time = clock (ticks st);
          (pose, d') = pe_detect_pose pe (detector st) frame;
          frame_processing_time = clock (ticks st + 1) - frame_start_time
      in if fps = 0 then Inl ZeroDivisionError
         else
           let truthy = (case pose of None \<Rightarrow> False | Some p \<Rightarrow> p \<noteq> []);
               info = \<lparr>frame_number = frame_count st,
                             timestamp = real_of_int (frame_count st) / real_of_int fps,
                             pose_detected = (pose \<noteq> None),
                             processing_time = frame_processing_time,
                             pose_data = (if truthy then pose else None)\<rparr>;
               out_frame = (case pose of
                              None \<Rightarrow> frame
                            | Some p \<Rightarrow> if p \<noteq> [] then pe_draw_pose pe frame p else frame);
               st' = \<lparr>frame_data = frame_data st @ [info],
                      frame_count = frame_count st + 1,
                      pose_detected_frames =
                        (if truthy then pose_detected_frames st + 1 else pose_detected_frames st),
                      video_out = (if save_video then video_out st @ [out_frame] else video_out st),
                      detector = d',
                      ticks = ticks st + 2\<rparr>
           in if frame_count st' mod 100 = 0 \<or> frame_count st' = total_frames then
                (if total_frames = 0 then Inl ZeroDivisionError
                 else process_frames pe clock save_video fps total_frames start_time rest
                        (st'\<lparr>ticks := ticks st' + 1\<rparr>))
              else process_frames pe clock save_video fps total_frames start_time rest st')"

text \<open>
  What a completed pass leaves behind: the statistics returned to the caller, the
  per-frame records handed to \<^verbatim>\<open>_save_keypoints_data\<close>, and the annotated frames.
\<close>

record ('f, 'v) process_result =
  statistics :: video_statistics
  frame_records :: "'v frame_info list"
  annotated_frames :: "'f list"

text \<open>
  True division \<^verbatim>\<open>a / b\<close> on numbers: it raises \<^verbatim>\<open>ZeroDivisionError\<close> for a zero
  divisor. (In HOL \<open>a / 0 = 0\<close>; the fault is written out here.)
\<close>

definition py_truediv :: "real \<Rightarrow> real \<Rightarrow> py_error + real" where
  "py_truediv a b = (if b = 0 then Inl ZeroDivisionError else Inr (a / b))"

text \<open>
  Lines 173--179, the update of \<^verbatim>\<open>self.stats\<close>: each of the two divisions stands under
  its conditional expression and is evaluated only when the test holds.
\<close>

definition update_statistics :: "int \<Rightarrow> int \<Rightarrow> real \<Rightarrow> py_error + video_statistics" where
  "update_statistics total_frames frames_with_pose total_processing_time =
     (case (if total_processing_time > 0
            then py_truediv (real_of_int total_frames) total_processing_time
            else Inr 0) of
        Inl e \<Rightarrow> Inl e
      | Inr avg \<Rightarrow>
          (case (if total_frames > 0
                 then py_truediv (real_of_int frames_with_pose) (real_of_int total_frames)
                 else Inr 0) of
             Inl e \<Rightarrow> Inl e
           | Inr rate \<Rightarrow>
               Inr \<lparr>stat_total_frames = total_frames,
                    stat_frames_with_pose = frames_with_pose,
                    stat_total_processing_time = total_processing_time,
                    stat_avg_fps = avg,
                    stat_pose_detection_rate = rate\<rparr>))"

text \<open>
  \<open>file_exists\<close> is \<^verbatim>\<open>os.path.exists(video_path)\<close>, \<open>cap\<close> is the opened capture. The
  statistics use \<^verbatim>\<open>total_frames\<close>, the frame count the container reports, not the number
  of frames the loop decoded.
\<close>

definition process_video ::
    "('d, 'f, 'v) pose_estimator \<Rightarrow> (nat \<Rightarrow> real) \<Rightarrow> bool \<Rightarrow> bool \<Rightarrow> 'f capture \<Rightarrow> 'd
       \<Rightarrow> py_error + ('f, 'v) process_result" where
  "process_video pe clock save_video file_exists cap d0 =
     (if \<not> file_exists then Inl (FileNotFoundError ''Video file not found'')
      else
        let (ok, d1) = pe_initialize pe d0 in
        if \<not> ok then Inl (RuntimeError ''Failed to initialize pose estimator'')
        else if \<not> is_opened cap then Inl (ValueError ''Could not open video file'')
        else
          let fps = py_int (prop_fps cap);
              total_frames = py_int (prop_frame_count cap);
              start_time = clock 0
          in (case process_frames pe clock save_video fps total_frames start_time (cap_frames cap)
                     \<lparr>frame_data = [], frame_count = 0, pose_detected_frames = 0,
                      video_out = [], detector = d1, ticks = 1\<rparr> of
                Inl e \<Rightarrow> Inl e
              | Inr st \<Rightarrow>
                  let total_processing_time = clock (ticks st) - start_time in
                  (case update_statistics total_frames (pose_detected_frames st)
                          total_processing_time of
                     Inl e \<Rightarrow> Inl e
                   | Inr stats \<Rightarrow>
                       Inr \<lparr>statistics = stats, frame_records = frame_data st,
                            annotated_frames = video_out st\<rparr>)))"

section \<open>The Gemini analyzer (gemini_analyzer.py, \<^verbatim>\<open>cleanup_video\<close>)\<close>

text \<open>
  The analyzer's bookkeeping: the dict \<^verbatim>\<open>uploaded_files\<close> from file id to the uploaded
  file object \<open>'fl\<close>, and the state \<open>'rs\<close> of the remote service the client talks to.
\<close>

record ('fl, 'rs) gemini_analyzer =
  is_initialized :: bool
  uploaded_files :: "string \<Rightarrow> 'fl option"
  remote :: 'rs

text \<open>
  \<open>delete_file\<close> stands for \<^verbatim>\<open>genai.delete_file\<close>: it answers \<open>False\<close> when the call
  raises. A raise is caught by \<^verbatim>\<open>except Exception\<close>, the entry stays in the dict and
  the method returns \<^verbatim>\<open>False\<close>.
\<close>

definition cleanup_video ::
    "('rs \<Rightarrow> 'fl \<Rightarrow> bool \<times> 'rs) \<Rightarrow> string \<Rightarrow> ('fl, 'rs) gemini_analyzer
       \<Rightarrow> bool \<times> ('fl, 'rs) gemini_analyzer" where
  "cleanup_video delete_file video_ref g =
     (case uploaded_files g video_ref of
        None \<Rightarrow> (True, g)
      | Some uploaded_file \<Rightarrow>
          let (deleted, r') = delete_file (remote g) uploaded_file in
          if deleted
          then (True, g\<lparr>uploaded_files := (uploaded_files g)(video_ref := None), remote := r'\<rparr>)
          else (False, g\<lparr>remote := r'\<rparr>))"

section \<open>The orchestration pipeline (video_analysis_pipeline.py)\<close>

text \<open>
  The analyzer interface of \<^verbatim>\<open>VideoAnalyzerBase\<close> as the pipeline calls it, over the
  analyzer's state \<open>'a\<close>. An analysis is a Python dict (falsy when empty), a handle is a
  string (falsy when empty).
\<close>

record ('a, 'r, 'i) video_analyzer =
  va_initialize :: "'a \<Rightarrow> bool \<times> 'a"
  va_upload_video :: "string \<Rightarrow> 'a \<Rightarrow> string option \<times> 'a"
  va_analyze_video :: "string \<Rightarrow> string \<Rightarrow> 'a \<Rightarrow> (string \<times> 'r) list option \<times> 'a"
  va_cleanup_video :: "string \<Rightarrow> 'a \<Rightarrow> bool \<times> 'a"
  va_get_model_info :: "'a \<Rightarrow> 'i"

text \<open>The dict \<^verbatim>\<open>result\<close> built by \<^verbatim>\<open>analyze_video\<close>; each field is a key after \<open>res_\<close>.\<close>

record ('r, 'i) analysis_output =
  res_video_path :: string
  res_analyzer_info :: 'i
  res_prompt :: string
  res_analysis :: "(string \<times> 'r) list"
  res_additional_data_provided :: bool

text \<open>The file system as the pipeline meets it.\<close>

record fs_env =
  path_exists :: "string \<Rightarrow> bool"
  can_write :: "string \<Rightarrow> bool"

text \<open>
  The two effects whose order matters, recorded when they happen: the attempt of
  \<^verbatim>\<open>_save_analysis_result\<close> to write a file (and whether the write succeeded), and a call
  of the analyzer's \<^verbatim>\<open>cleanup_video\<close> on a handle (and what it returned).
\<close>

datatype event = SaveResult string bool | CleanupVideo string bool

text \<open>An entry of the batch result dict: the analysis output, or \<^verbatim>\<open>{"error": str(e)}\<close>.\<close>

type_synonym ('r, 'i) batch_entry = "py_error + ('r, 'i) analysis_output"

record ('a, 'r, 'i) pipeline =
  analyzer :: 'a
  uploaded_videos :: "string list"
  output_files :: "string \<Rightarrow> ('r, 'i) analysis_output option"
  batch_file :: "(string \<times> ('r, 'i) batch_entry) list option"
  events :: "event list"

text \<open>
  \<^verbatim>\<open>_save_analysis_result\<close>: a failing write is logged and swallowed. \<open>stem\<close> stands
  for \<^verbatim>\<open>Path(video_path).stem\<close>.
\<close>

definition save_analysis_result ::
    "(string \<Rightarrow> string) \<Rightarrow> fs_env \<Rightarrow> string \<Rightarrow> ('r, 'i) analysis_output
       \<Rightarrow> ('a, 'r, 'i) pipeline \<Rightarrow> ('a, 'r, 'i) pipeline" where
  "save_analysis_result stem env video_path result p =
     (let video_name = stem video_path;
          result_file = ''analysis_'' @ video_name @ ''.json''
      in if can_write env result_file
         then p\<lparr>output_files := (output_files p)(result_file := Some result),
                 events := events p @ [SaveResult result_file True]\<rparr>
         else p\<lparr>events := events p @ [SaveResult result_file False]\<rparr>)"

text \<open>
  \<^verbatim>\<open>analyze_video\<close> returns the result or raises; either way the pipeline object keeps
  what was done to it. The parameters \<^verbatim>\<open>keypoints_json\<close> and \<^verbatim>\<open>custom_data\<close> are never
  read by the body (\<^verbatim>\<open>additional_data\<close> is always \<^verbatim>\<open>None\<close>) and are left out.
\<close>

definition analyze_video ::
    "(string \<Rightarrow> string) \<Rightarrow> fs_env \<Rightarrow> ('a, 'r, 'i) video_analyzer \<Rightarrow> string \<Rightarrow> string \<Rightarrow> bool
       \<Rightarrow> ('a, 'r, 'i) pipeline \<Rightarrow> (py_error + ('r, 'i) analysis_output) \<times> ('a, 'r, 'i) pipeline" where
  "analyze_video stem env va video_path prompt cleanup_after p =
     (if \<not> path_exists env video_path
      then (Inl (FileNotFoundError (''Video file not found: '' @ video_path)), p)
      else
        let (ok, a1) = va_initialize va (analyzer p) in
        if \<not> ok
        then (Inl (RuntimeError ''Failed to initialize video analyzer''), p\<lparr>analyzer := a1\<rparr>)
        else
          let (uploaded, a2) = va_upload_video va video_path a1 in
          (case uploaded of
             None \<Rightarrow> (Inl (RuntimeError ''Failed to upload video''), p\<lparr>analyzer := a2\<rparr>)
           | Some video_ref \<Rightarrow>
               if video_ref = []
               then (Inl (RuntimeError ''Failed to upload video''), p\<lparr>analyzer := a2\<rparr>)
               else
                 let p1 = p\<lparr>analyzer := a2, uploaded_videos := uploaded_videos p @ [video_ref]\<rparr>;
                     (analysed, a3) = va_analyze_video va video_ref prompt a2;
                     p2 = p1\<lparr>analyzer := a3\<rparr>
                 in (case analysed of
                       None \<Rightarrow> (Inl (RuntimeError ''Failed to analyze video''), p2)
                     | Some analysis_result \<Rightarrow>
                         if analysis_result = []
                         then (Inl (RuntimeError ''Failed to analyze video''), p2)
                         else
                           let result = \<lparr>res_video_path = video_path,
                                         res_analyzer_info = va_get_model_info va a3,
                                         res_prompt = prompt,
                                         res_analysis = analysis_result,
                                         res_additional_data_provided = False\<rparr>;
                               p3 = save_analysis_result stem env video_path result p2
                           in if cleanup_after then
                                let (cleaned, a4) = va_cleanup_video va video_ref (analyzer p3)
                                in (Inr result,
                                    p3\<lparr>analyzer := a4,
                                       uploaded_videos := remove1 video_ref (uploaded_videos p3),
                                       events := events p3 @ [CleanupVideo video_ref cleaned]\<rparr>)
                              else (Inr result, p3))))"



text \<open>A batch configuration with its two required keys.\<close>

record batch_config =
  cfg_video_path :: string
  cfg_prompt :: string

text \<open>
  The loop of \<^verbatim>\<open>batch_analyze\<close>. The result dict keeps insertion order and is keyed by
  the stem of the video path: assigning to a key that is present replaces its value.
  Every exception of \<^verbatim>\<open>analyze_video\<close> is caught and stored as the item's error.
\<close>

fun batch_loop ::
    "(string \<Rightarrow> string) \<Rightarrow> fs_env \<Rightarrow> ('a, 'r, 'i) video_analyzer \<Rightarrow> bool \<Rightarrow> batch_config list
       \<Rightarrow> (string \<times> ('r, 'i) batch_entry) list \<Rightarrow> ('a, 'r, 'i) pipeline
       \<Rightarrow> (string \<times> ('r, 'i) batch_entry) list \<times> ('a, 'r, 'i) pipeline" where
  "batch_loop stem env va cleanup_after_each [] results p = (results, p)"
| "batch_loop stem env va cleanup_after_each (config # rest) results p =
     (let (outcome, p') = analyze_video stem env va (cfg_video_path config) (cfg_prompt config)
                            cleanup_after_each p
      in batch_loop stem env va cleanup_after_each rest
           (AList.update (stem (cfg_video_path config)) outcome results) p')"

definition batch_analyze ::
    "(string \<Rightarrow> string) \<Rightarrow> fs_env \<Rightarrow> ('a, 'r, 'i) video_analyzer \<Rightarrow> batch_config list \<Rightarrow> bool
       \<Rightarrow> ('a, 'r, 'i) pipeline
       \<Rightarrow> (string \<times> ('r, 'i) batch_entry) list \<times> ('a, 'r, 'i) pipeline" where
  "batch_analyze stem env va video_configs cleanup_after_each p =
     (let (results, p') = batch_loop stem env va cleanup_after_each video_configs [] p
      in if can_write env ''batch_analysis_results.json''
         then (results, p'\<lparr>batch_file := Some results\<rparr>)
         else (results, p'))"

text \<open>
  \<^verbatim>\<open>PurePosixPath(p).name\<close> and \<^verbatim>\<open>.stem\<close> as pathlib computes them: the last path
  component that is neither empty nor \<^verbatim>\<open>.\<close>, cut at its last dot unless that dot is
  the first or the last character. The theorems take the stem function as a parameter;
  this one instantiates it at concrete paths.
\<close>

definition path_name :: "string \<Rightarrow> string" where
  "path_name p =
     (case filter (\<lambda>c. c \<noteq> [] \<and> c \<noteq> ''.'') (split_on CHR ''/'' p) of
        [] \<Rightarrow> []
      | c # cs \<Rightarrow> last (c # cs))"

definition path_stem :: "string \<Rightarrow> string" where
  "path_stem p =
     (let name = path_name p in
      if CHR ''.'' \<in> set name then
        let i = length name - 1 - length (takeWhile (\<lambda>c. c \<noteq> CHR ''.'') (rev name))
        in if 0 < i \<and> i < length name - 1 then take i name else name
      else name)"

text \<open>
  For stating what the batch result holds: the value (result or caught exception) that
  \<^verbatim>\<open>analyze_video\<close> gives for the item at position \<open>l\<close>, run in the pipeline state that
  the items before it left behind.
\<close>

definition batch_outcome ::
    "(string \<Rightarrow> string) \<Rightarrow> fs_env \<Rightarrow> ('a, 'r, 'i) video_analyzer \<Rightarrow> bool \<Rightarrow> batch_config list
       \<Rightarrow> ('a, 'r, 'i) pipeline \<Rightarrow> nat \<Rightarrow> ('r, 'i) batch_entry" where
  "batch_outcome stem env va cleanup_after_each video_configs p l =
     fst (analyze_video stem env va (cfg_video_path (video_configs ! l))
            (cfg_prompt (video_configs ! l)) cleanup_after_each
            (snd (batch_loop stem env va cleanup_after_each (take l video_configs) [] p)))"

section \<open>Example inputs\<close>

text \<open>
  Concrete collaborators for the closed theorems below. The example analyzer counts its
  uploads in its state: the second upload fails (returns \<^verbatim>\<open>None\<close>), every other upload
  returns a handle; every analysis succeeds; every cleanup fails (returns \<^verbatim>\<open>False\<close>).
\<close>

definition example_analyzer :: "(nat, string, string) video_analyzer" where
  "example_analyzer =
     \<lparr>va_initialize = (\<lambda>a. (True, a)),
      va_upload_video = (\<lambda>path a. (if a = 1 then None else Some (''files/'' @ path), a + 1)),
      va_analyze_video = (\<lambda>video_ref prompt a. (Some [(''analysis'', prompt)], a)),
      va_cleanup_video = (\<lambda>video_ref a. (False, a)),
      va_get_model_info = (\<lambda>a. ''example'')\<rparr>"

text \<open>Every path exists; writes succeed in the first file system and fail in the second.\<close>

definition writable_env :: fs_env where
  "writable_env = \<lparr>path_exists = (\<lambda>path. True), can_write = (\<lambda>path. True)\<rparr>"


text \<open>A freshly constructed pipeline.\<close>

definition new_pipeline :: "(nat, string, string) pipeline" where
  "new_pipeline =
     \<lparr>analyzer = 0, uploaded_videos = [], output_files = (\<lambda>file. None), batch_file = None,
      events = []\<rparr>"

section \<open>Properties of timestamp parsing\<close>

lemma split_on_nonempty: "split_on sep s \<noteq> []"
  by (induction s) (auto split: list.splits)

lemma timestamp_two_parts:
  assumes "pyfloat ''0'' = Some 0" and "pyfloat ''04'' = Some 4"
  shows "timestamp_to_seconds pyfloat ''0:04'' = PyFloat 4"
  using assms by (simp add: timestamp_to_seconds_def)

lemma timestamp_three_parts:
  assumes "pyfloat ''1'' = Some 1" and "pyfloat ''02'' = Some 2" and "pyfloat ''03'' = Some 3"
  shows "timestamp_to_seconds pyfloat ''1:02:03'' = PyFloat 3723"
  using assms by (simp add: timestamp_to_seconds_def)

lemma timestamp_bare_seconds:
  assumes "pyfloat ''12.5'' = Some 12.5"
  shows "timestamp_to_seconds pyfloat ''12.5'' = PyFloat 12.5"
  using assms by (simp add: timestamp_to_seconds_def)

lemma timestamp_unparsable_word:
  assumes "pyfloat ''abc'' = None"
  shows "timestamp_to_seconds pyfloat ''abc'' = PyFloat 0"
  using assms by (simp add: timestamp_to_seconds_def)

text \<open>
  Claim C1. Timestamp parsing is claimed to return a float for every input string, with
  every malformed string mapped to the fallback \<open>0.0\<close>. On the colon string
  \<^verbatim>\<open>"1:2:3:4"\<close>, which is neither \<^verbatim>\<open>M:SS\<close> nor \<^verbatim>\<open>H:MM:SS\<close>, the function returns
  \<^verbatim>\<open>None\<close> whatever \<^verbatim>\<open>float\<close> does on the pieces: it is not a float and it is not the
  fallback \<open>0.0\<close>.
\<close>

theorem timestamp_four_parts_returns_none:
  "timestamp_to_seconds pyfloat ''1:2:3:4'' = PyNone
   \<and> timestamp_to_seconds pyfloat ''1:2:3:4'' \<noteq> PyFloat 0"
  by (simp add: timestamp_to_seconds_def)

section \<open>Properties of frame extraction\<close>













section \<open>Properties of rotation handling and the slow-motion transform\<close>

lemma write_all_frames_fields:
  "writer_fps (write_all_frames cv2_rotate acc a fs out) = writer_fps out
   \<and> writer_size (write_all_frames cv2_rotate acc a fs out) = writer_size out
   \<and> writer_path (write_all_frames cv2_rotate acc a fs out) = writer_path out
   \<and> writer_opened (write_all_frames cv2_rotate acc a fs out) = writer_opened out"
  by (induction fs arbitrary: out) (simp_all add: Let_def)

lemma write_all_frames_calls:
  "write_calls (write_all_frames cv2_rotate acc a fs out)
     = write_calls out @ map (\<lambda>frame. if a \<noteq> 0 then rotate_frame cv2_rotate frame a else frame) fs"
  by (induction fs arbitrary: out) (simp_all add: Let_def)

lemma write_all_frames_written:
  "written (write_all_frames cv2_rotate acc a fs out)
     = written out @
         (if writer_opened out
          then filter (acc (writer_size out))
                 (map (\<lambda>frame. if a \<noteq> 0 then rotate_frame cv2_rotate frame a else frame) fs)
          else [])"
  by (induction fs arbitrary: out) (simp_all add: Let_def)

lemma slow_down_video_swaps_dimensions:
  assumes "is_opened cap" and "slow_factor \<noteq> Finite 0"
    and "get_video_rotation pyint probe = 90 \<or> get_video_rotation pyint probe = 270"
    and "slow_down_video pyint cv2_rotate fdiv writer_opens writer_accepts probe cap
           output_path slow_factor = (ok, Some w)"
  shows "writer_size w = (py_int (prop_frame_height cap), py_int (prop_frame_width cap))"
  using assms by (auto simp: slow_down_video_def Let_def write_all_frames_fields)

lemma float_div_examples:
  "float_div (Finite 30) (Finite 2) = Finite 15"
  "float_div (Finite 30) (Finite (- 2)) = Finite (- 15)"
  by (simp_all add: float_div_def float_of_real_def)

text \<open>
  Claim C3. The rotation read from container metadata is claimed to be one of 0, 90,
  180, 270 for every video (the function's docstring says the same), with width and
  height swapped for 90 and 270. For a video stream whose display matrix reports the
  rotation \<open>90\<close>, the function negates it and returns \<open>-90\<close>, which is none of the four
  values; \<^verbatim>\<open>slow_down_video\<close> then neither swaps the dimensions nor rotates a frame,
  whatever the writer does.
\<close>

theorem rotation_display_matrix_90_negative:
  "get_video_rotation pyint
     (Some \<lparr>returncode = 0,
            stdout_streams = Some [\<lparr>codec_type = Some ''video'',
              side_data_list = [\<lparr>side_data_type = Some ''Display Matrix'', rotation = Some 90\<rparr>],
              tags = (\<lambda>k. None)\<rparr>]\<rparr>) = - 90
   \<and> (- 90 :: int) \<notin> {0, 90, 180, 270}
   \<and> slow_down_video pyint cv2_rotate float_div (\<lambda>path fps size. True) (\<lambda>size frame. True)
        (Some \<lparr>returncode = 0,
            stdout_streams = Some [\<lparr>codec_type = Some ''video'',
              side_data_list = [\<lparr>side_data_type = Some ''Display Matrix'', rotation = Some 90\<rparr>],
              tags = (\<lambda>k. None)\<rparr>]\<rparr>)
        \<lparr>is_opened = True, prop_fps = 30, prop_frame_width = 640, prop_frame_height = 480,
         prop_frame_count = 2, cap_frames = [f1, f2]\<rparr> ''out.mp4'' (Finite 2)
     = (True, Some \<lparr>writer_path = ''out.mp4'', writer_fps = Finite 15, writer_size = (640, 480),
                    writer_opened = True, write_calls = [f1, f2], written = [f1, f2]\<rparr>)
   \<and> (\<exists>w. slow_down_video pyint cv2_rotate fdiv writer_opens writer_accepts
        (Some \<lparr>returncode = 0,
            stdout_streams = Some [\<lparr>codec_type = Some ''video'',
              side_data_list = [\<lparr>side_data_type = Some ''Display Matrix'', rotation = Some 90\<rparr>],
              tags = (\<lambda>k. None)\<rparr>]\<rparr>)
        \<lparr>is_opened = True, prop_fps = 30, prop_frame_width = 640, prop_frame_height = 480,
         prop_frame_count = 2, cap_frames = [f1, f2]\<rparr> ''out.mp4'' (Finite 2)
       = (True, Some w) \<and> writer_size w = (640, 480) \<and> write_calls w = [f1, f2])"
  by (simp add: get_video_rotation_def slow_down_video_def rotate_frame_def py_int_def
        float_div_examples Let_def)

text \<open>
  Claim C6 (as amended). For every input video that opens and every slow factor other
  than 0, the slow-motion transform returns \<^verbatim>\<open>True\<close>, sets its writer up at
  \<open>original_fps / slow_factor\<close> and hands each decoded frame, rotation-corrected, to the
  writer exactly once and in decode order. When the writer opened and accepts these
  frames, the output holds exactly these frames, as many as were decoded, none
  duplicated or dropped. When the writer did not open, nothing is written although
  \<^verbatim>\<open>True\<close> is returned.
\<close>

theorem slow_down_video_preserves_frames:
  assumes "is_opened cap" and "slow_factor \<noteq> Finite 0"
  shows "\<exists>w. slow_down_video pyint cv2_rotate fdiv writer_opens writer_accepts probe cap
               output_path slow_factor = (True, Some w)
           \<and> writer_fps w = fdiv (Finite (prop_fps cap)) slow_factor
           \<and> writer_opened w = writer_opens output_path (writer_fps w) (writer_size w)
           \<and> write_calls w = map (\<lambda>frame. if get_video_rotation pyint probe \<noteq> 0
                                       then rotate_frame cv2_rotate frame (get_video_rotation pyint probe)
                                       else frame) (cap_frames cap)
           \<and> length (write_calls w) = length (cap_frames cap)
           \<and> (writer_opened w \<and> (\<forall>frame \<in> set (write_calls w). writer_accepts (writer_size w) frame)
                \<longrightarrow> written w = write_calls w \<and> length (written w) = length (cap_frames cap))
           \<and> (\<not> writer_opened w \<longrightarrow> written w = [])"
proof -
  let ?corr = "\<lambda>frame. if get_video_rotation pyint probe \<noteq> 0
                       then rotate_frame cv2_rotate frame (get_video_rotation pyint probe)
                       else frame"
  let ?size = "if get_video_rotation pyint probe = 90 \<or> get_video_rotation pyint probe = 270
               then (py_int (prop_frame_height cap), py_int (prop_frame_width cap))
               else (py_int (prop_frame_width cap), py_int (prop_frame_height cap))"
  let ?out = "\<lparr>writer_path = output_path,
               writer_fps = fdiv (Finite (prop_fps cap)) slow_factor,
               writer_size = ?size,
               writer_opened = writer_opens output_path (fdiv (Finite (prop_fps cap)) slow_factor) ?size,
               write_calls = [], written = []\<rparr>"
  let ?w = "write_all_frames cv2_rotate writer_accepts (get_video_rotation pyint probe)
              (cap_frames cap) ?out"
  have run: "slow_down_video pyint cv2_rotate fdiv writer_opens writer_accepts probe cap
               output_path slow_factor = (True, Some ?w)"
    using assms by (simp add: slow_down_video_def Let_def)
  have fps: "writer_fps ?w = fdiv (Finite (prop_fps cap)) slow_factor"
    and sz: "writer_size ?w = ?size"
    and op: "writer_opened ?w = writer_opens output_path (fdiv (Finite (prop_fps cap)) slow_factor) ?size"
    by (simp_all add: write_all_frames_fields)
  have calls: "write_calls ?w = map ?corr (cap_frames cap)"
    by (simp add: write_all_frames_calls)
  have wr: "written ?w = (if writer_opened ?w
                          then filter (writer_accepts (writer_size ?w)) (write_calls ?w) else [])"
    unfolding calls op sz by (simp add: write_all_frames_written)
  have all: "written ?w = write_calls ?w"
    if "writer_opened ?w" "\<forall>frame \<in> set (write_calls ?w). writer_accepts (writer_size ?w) frame"
    using that unfolding wr by simp
  have none: "written ?w = []" if "\<not> writer_opened ?w"
    using that unfolding wr by simp
  show ?thesis
  proof (intro exI [of _ ?w] conjI impI)
    show "slow_down_video pyint cv2_rotate fdiv writer_opens writer_accepts probe cap
               output_path slow_factor = (True, Some ?w)" by (rule run)
    show "writer_fps ?w = fdiv (Finite (prop_fps cap)) slow_factor" by (rule fps)
    show "writer_opened ?w = writer_opens output_path (writer_fps ?w) (writer_size ?w)"
      unfolding fps sz by (rule op)
    show "write_calls ?w = map ?corr (cap_frames cap)" by (rule calls)
    show "length (write_calls ?w) = length (cap_frames cap)" unfolding calls by simp
    show "written ?w = write_calls ?w"
      if "writer_opened ?w \<and> (\<forall>frame \<in> set (write_calls ?w). writer_accepts (writer_size ?w) frame)"
      using all that by blast
    show "length (written ?w) = length (cap_frames cap)"
      if "writer_opened ?w \<and> (\<forall>frame \<in> set (write_calls ?w). writer_accepts (writer_size ?w) frame)"
      using all that calls by simp
    show "written ?w = []" if "\<not> writer_opened ?w" using none that by blast
  qed
qed

theorem slow_down_video_preserves_frames_witness:
  "is_opened \<lparr>is_opened = True, prop_fps = 30, prop_frame_width = 640, prop_frame_height = 480,
               prop_frame_count = 3, cap_frames = [10, 20, 30 :: nat]\<rparr>
   \<and> Finite 2 \<noteq> Finite 0
   \<and> (\<exists>w. slow_down_video (\<lambda>s. None) (\<lambda>c f. f) float_div
             (\<lambda>path fps size. case fps of Finite r \<Rightarrow> 0 < r | _ \<Rightarrow> False) (\<lambda>size frame. True) None
             \<lparr>is_opened = True, prop_fps = 30, prop_frame_width = 640, prop_frame_height = 480,
              prop_frame_count = 3, cap_frames = [10, 20, 30 :: nat]\<rparr> ''slow.mp4'' (Finite 2)
            = (True, Some w)
          \<and> writer_fps w = Finite 15 \<and> writer_opened w
          \<and> write_calls w = [10, 20, 30] \<and> written w = [10, 20, 30]
          \<and> length (written w) = 3)"
proof -
  let ?cap = "\<lparr>is_opened = True, prop_fps = 30, prop_frame_width = 640, prop_frame_height = 480,
               prop_frame_count = 3, cap_frames = [10, 20, 30 :: nat]\<rparr>"
  let ?opens = "\<lambda>(path::string) fps (size::int \<times> int). case fps of Finite r \<Rightarrow> 0 < r | _ \<Rightarrow> False"
  let ?acc = "\<lambda>(size::int \<times> int) (frame::nat). True"
  have o: "is_opened ?cap" by simp
  have n: "Finite 2 \<noteq> Finite 0" by simp
  from slow_down_video_preserves_frames [OF o n, of "\<lambda>s. None" "\<lambda>c f. f" float_div ?opens ?acc
         None "''slow.mp4''"]
  obtain w where
    run: "slow_down_video (\<lambda>s. None) (\<lambda>c f. f) float_div ?opens ?acc None ?cap ''slow.mp4''
            (Finite 2) = (True, Some w)"
    and fps: "writer_fps w = float_div (Finite (prop_fps ?cap)) (Finite 2)"
    and op: "writer_opened w = ?opens ''slow.mp4'' (writer_fps w) (writer_size w)"
    and calls: "write_calls w = map (\<lambda>frame. if get_video_rotation (\<lambda>s. None) None \<noteq> 0
                   then rotate_frame (\<lambda>c f. f) frame (get_video_rotation (\<lambda>s. None) None)
                   else frame) (cap_frames ?cap)"
    and wr: "writer_opened w \<and> (\<forall>frame \<in> set (write_calls w). ?acc (writer_size w) frame)
                \<longrightarrow> written w = write_calls w \<and> length (written w) = length (cap_frames ?cap)"
    by blast
  from fps have fps': "writer_fps w = Finite 15" by (simp add: float_div_examples)
  from op fps' have op': "writer_opened w" by simp
  from calls have calls': "write_calls w = [10, 20, 30]" by (simp add: get_video_rotation_def)
  from wr op' calls' have wr': "written w = [10, 20, 30]" by simp
  have all: "slow_down_video (\<lambda>s. None) (\<lambda>c f. f) float_div ?opens ?acc None ?cap ''slow.mp4''
            (Finite 2) = (True, Some w)
          \<and> writer_fps w = Finite 15 \<and> writer_opened w
          \<and> write_calls w = [10, 20, 30] \<and> written w = [10, 20, 30]
          \<and> length (written w) = 3"
    using run fps' op' calls' wr' by simp
  show ?thesis
    by (rule conjI [OF o], rule conjI [OF n], rule exI [of _ w], rule all)
qed

text \<open>
  The claim as first stated quantifies over every slow factor. With the factor 0 the
  division raises, the transform returns \<^verbatim>\<open>False\<close> and no frame of a three-frame video
  is written.
\<close>

theorem slow_down_video_zero_factor:
  "slow_down_video (\<lambda>s. None) (\<lambda>c f. f) float_div
     (\<lambda>path fps size. case fps of Finite r \<Rightarrow> 0 < r | _ \<Rightarrow> False) (\<lambda>size frame. True) None
     \<lparr>is_opened = True, prop_fps = 30, prop_frame_width = 640, prop_frame_height = 480,
      prop_frame_count = 3, cap_frames = [10, 20, 30 :: nat]\<rparr> ''slow.mp4'' (Finite 0)
   = (False, None)"
  by (simp add: slow_down_video_def Let_def)

text \<open>
  With a negative factor the frame rate is negative; a writer that opens only for a
  positive frame rate then encodes nothing, and the transform still returns \<^verbatim>\<open>True\<close>.
\<close>

lemma slow_down_video_negative_factor:
  "slow_down_video (\<lambda>s. None) (\<lambda>c f. f) float_div
     (\<lambda>path fps size. case fps of Finite r \<Rightarrow> 0 < r | _ \<Rightarrow> False) (\<lambda>size frame. True) None
     \<lparr>is_opened = True, prop_fps = 30, prop_frame_width = 640, prop_frame_height = 480,
      prop_frame_count = 3, cap_frames = [10, 20, 30 :: nat]\<rparr> ''slow.mp4'' (Finite (- 2))
   = (True, Some \<lparr>writer_path = ''slow.mp4'', writer_fps = Finite (- 15), writer_size = (640, 480),
                  writer_opened = False, write_calls = [10, 20, 30], written = []\<rparr>)"
  by (simp add: slow_down_video_def get_video_rotation_def float_div_examples py_int_def Let_def)

section \<open>Properties of the frame processing engine\<close>

lemma process_frames_Cons_Inr:
  assumes "process_frames pe clock save_video fps tf t0 (frame # rest) st = Inr st'"
  shows "fps \<noteq> 0 \<and> (\<exists>st1 info.
           process_frames pe clock save_video fps tf t0 rest st1 = Inr st'
         \<and> frame_data st1 = frame_data st @ [info]
         \<and> frame_number info = frame_count st
         \<and> timestamp info = real_of_int (frame_count st) / real_of_int fps
         \<and> frame_count st1 = frame_count st + 1
         \<and> pose_detected_frames st \<le> pose_detected_frames st1
         \<and> pose_detected_frames st1 \<le> pose_detected_frames st + 1
         \<and> length (video_out st1) = length (video_out st) + (if save_video then 1 else 0))"
  using assms
  by (auto simp: Let_def split: prod.splits if_splits)

lemma process_frames_Inr:
  assumes "process_frames pe clock save_video fps tf t0 frames st = Inr st'"
  shows "\<exists>infos. frame_data st' = frame_data st @ infos
         \<and> length infos = length frames
         \<and> (\<forall>i < length frames. frame_number (infos ! i) = frame_count st + int i
                \<and> timestamp (infos ! i) = real_of_int (frame_count st + int i) / real_of_int fps)
         \<and> frame_count st' = frame_count st + int (length frames)
         \<and> pose_detected_frames st \<le> pose_detected_frames st'
         \<and> pose_detected_frames st' \<le> pose_detected_frames st + int (length frames)
         \<and> length (video_out st') = length (video_out st) + (if save_video then length frames else 0)"
  using assms
proof (induction frames arbitrary: st)
  case Nil
  then show ?case by simp
next
  case (Cons frame rest)
  from process_frames_Cons_Inr [OF Cons.prems] obtain st1 info where
    fps: "fps \<noteq> 0"
    and rest: "process_frames pe clock save_video fps tf t0 rest st1 = Inr st'"
    and fd: "frame_data st1 = frame_data st @ [info]"
    and fn: "frame_number info = frame_count st"
    and ts: "timestamp info = real_of_int (frame_count st) / real_of_int fps"
    and fc: "frame_count st1 = frame_count st + 1"
    and lo: "pose_detected_frames st \<le> pose_detected_frames st1"
    and hi: "pose_detected_frames st1 \<le> pose_detected_frames st + 1"
    and vo: "length (video_out st1) = length (video_out st) + (if save_video then 1 else 0)"
    by blast
  from Cons.IH [OF rest] obtain infos where
    a: "frame_data st' = frame_data st1 @ infos"
    and b: "length infos = length rest"
    and c: "\<forall>i < length rest. frame_number (infos ! i) = frame_count st1 + int i
                \<and> timestamp (infos ! i) = real_of_int (frame_count st1 + int i) / real_of_int fps"
    and d: "frame_count st' = frame_count st1 + int (length rest)"
    and e: "pose_detected_frames st1 \<le> pose_detected_frames st'"
    and f: "pose_detected_frames st' \<le> pose_detected_frames st1 + int (length rest)"
    and g: "length (video_out st') = length (video_out st1) + (if save_video then length rest else 0)"
    by blast
  have nth: "frame_number ((info # infos) ! i) = frame_count st + int i
                \<and> timestamp ((info # infos) ! i) = real_of_int (frame_count st + int i) / real_of_int fps"
    if "i < length (frame # rest)" for i
  proof (cases i)
    case 0
    then show ?thesis using fn ts by simp
  next
    case (Suc j)
    with that have "j < length rest" by simp
    with c fc Suc show ?thesis by (simp add: add.commute add.left_commute)
  qed
  show ?case
  proof (intro exI [of _ "info # infos"] conjI)
    show "frame_data st' = frame_data st @ info # infos" using a fd by simp
    show "length (info # infos) = length (frame # rest)" using b by simp
    show "\<forall>i<length (frame # rest). frame_number ((info # infos) ! i) = frame_count st + int i
                \<and> timestamp ((info # infos) ! i) = real_of_int (frame_count st + int i) / real_of_int fps"
      using nth by blast
    show "frame_count st' = frame_count st + int (length (frame # rest))" using d fc by simp
    show "pose_detected_frames st \<le> pose_detected_frames st'" using lo e by simp
    show "pose_detected_frames st' \<le> pose_detected_frames st + int (length (frame # rest))"
      using hi f by simp
    show "length (video_out st') = length (video_out st) + (if save_video then length (frame # rest) else 0)"
      using vo g by simp
  qed
qed

lemma process_frames_step:
  assumes "fps \<noteq> 0"
  shows "\<exists>st1. frame_count st1 = frame_count st + 1
         \<and> process_frames pe clock save_video fps tf t0 (frame # rest) st =
             (if (frame_count st + 1) mod 100 = 0 \<or> frame_count st + 1 = tf
              then (if tf = 0 then Inl ZeroDivisionError
                    else process_frames pe clock save_video fps tf t0 rest
                           (st1\<lparr>ticks := ticks st1 + 1\<rparr>))
              else process_frames pe clock save_video fps tf t0 rest st1)"
proof (cases "pe_detect_pose pe (detector st) frame")
  case (Pair pose d')
  define truthy where "truthy = (case pose of None \<Rightarrow> False | Some p \<Rightarrow> p \<noteq> [])"
  define st1 where "st1 =
    \<lparr>frame_data = frame_data st @
        [\<lparr>frame_number = frame_count st,
          timestamp = real_of_int (frame_count st) / real_of_int fps,
          pose_detected = (pose \<noteq> None),
          processing_time = clock (ticks st + 1) - clock (ticks st),
          pose_data = (if truthy then pose else None)\<rparr>],
      frame_count = frame_count st + 1,
      pose_detected_frames =
        (if truthy then pose_detected_frames st + 1 else pose_detected_frames st),
      video_out = (if save_video
                   then video_out st @
                     [case pose of None \<Rightarrow> frame
                      | Some p \<Rightarrow> if p \<noteq> [] then pe_draw_pose pe frame p else frame]
                   else video_out st),
      detector = d',
      ticks = ticks st + 2\<rparr>"
  have fc: "frame_count st1 = frame_count st + 1" by (simp add: st1_def)
  have "process_frames pe clock save_video fps tf t0 (frame # rest) st =
             (if (frame_count st + 1) mod 100 = 0 \<or> frame_count st + 1 = tf
              then (if tf = 0 then Inl ZeroDivisionError
                    else process_frames pe clock save_video fps tf t0 rest
                           (st1\<lparr>ticks := ticks st1 + 1\<rparr>))
              else process_frames pe clock save_video fps tf t0 rest st1)"
    using assms Pair by (simp add: Let_def st1_def truthy_def)
  with fc show ?thesis by blast
qed

lemma process_frames_returns:
  assumes "fps \<noteq> 0"
    and "tf \<noteq> 0 \<or> (0 \<le> frame_count st \<and> frame_count st + int (length frames) < 100)"
  shows "\<exists>st'. process_frames pe clock save_video fps tf t0 frames st = Inr st'"
  using assms
proof (induction frames arbitrary: st)
  case Nil
  then show ?case by simp
next
  case (Cons frame rest)
  from process_frames_step [OF Cons.prems(1), of st pe clock save_video tf t0 frame rest]
  obtain st1 where fc: "frame_count st1 = frame_count st + 1"
    and eq: "process_frames pe clock save_video fps tf t0 (frame # rest) st =
             (if (frame_count st + 1) mod 100 = 0 \<or> frame_count st + 1 = tf
              then (if tf = 0 then Inl ZeroDivisionError
                    else process_frames pe clock save_video fps tf t0 rest
                           (st1\<lparr>ticks := ticks st1 + 1\<rparr>))
              else process_frames pe clock save_video fps tf t0 rest st1)"
    by blast
  show ?case
  proof (cases "tf = 0")
    case False
    have a: "\<exists>st'. process_frames pe clock save_video fps tf t0 rest st1 = Inr st'"
      by (rule Cons.IH [OF Cons.prems(1)]) (simp add: False)
    have b: "\<exists>st'. process_frames pe clock save_video fps tf t0 rest
                     (st1\<lparr>ticks := ticks st1 + 1\<rparr>) = Inr st'"
      by (rule Cons.IH [OF Cons.prems(1)]) (simp add: False)
    from a b False show ?thesis unfolding eq by simp
  next
    case True
    with Cons.prems(2) have lo: "0 \<le> frame_count st"
      and hi: "frame_count st + 1 + int (length rest) < 100" by simp_all
    from lo hi have m: "(frame_count st + 1) mod 100 \<noteq> 0" and z: "frame_count st + 1 \<noteq> 0"
      by simp_all
    have a: "\<exists>st'. process_frames pe clock save_video fps tf t0 rest st1 = Inr st'"
      by (rule Cons.IH [OF Cons.prems(1)]) (use fc lo hi in simp)
    from a m z True show ?thesis unfolding eq by simp
  qed
qed

lemma process_frames_zero_total_faults:
  assumes "fps \<noteq> 0" and "tf = 0"
    and "0 \<le> frame_count st" and "frame_count st < 100"
    and "100 \<le> frame_count st + int (length frames)"
  shows "process_frames pe clock save_video fps tf t0 frames st = Inl ZeroDivisionError"
  using assms
proof (induction frames arbitrary: st)
  case Nil
  then show ?case by simp
next
  case (Cons frame rest)
  from process_frames_step [OF Cons.prems(1), of st pe clock save_video tf t0 frame rest]
  obtain st1 where fc: "frame_count st1 = frame_count st + 1"
    and eq: "process_frames pe clock save_video fps tf t0 (frame # rest) st =
             (if (frame_count st + 1) mod 100 = 0 \<or> frame_count st + 1 = tf
              then (if tf = 0 then Inl ZeroDivisionError
                    else process_frames pe clock save_video fps tf t0 rest
                           (st1\<lparr>ticks := ticks st1 + 1\<rparr>))
              else process_frames pe clock save_video fps tf t0 rest st1)"
    by blast
  show ?case
  proof (cases "frame_count st + 1 = 100")
    case True
    with Cons.prems(2) show ?thesis unfolding eq by simp
  next
    case False
    with Cons.prems have lo: "0 \<le> frame_count st + 1" and hi: "frame_count st + 1 < 100"
      and len: "100 \<le> frame_count st + 1 + int (length rest)" by simp_all
    from Cons.prems(3) hi have m: "(frame_count st + 1) mod 100 \<noteq> 0" and z: "frame_count st + 1 \<noteq> 0"
      by simp_all
    have a: "process_frames pe clock save_video fps tf t0 rest st1 = Inl ZeroDivisionError"
      by (rule Cons.IH [OF Cons.prems(1,2)]) (use fc lo hi len in simp_all)
    from a m z Cons.prems(2) show ?thesis unfolding eq by simp
  qed
qed

lemma process_frames_zero_fps_faults:
  "process_frames pe clock save_video 0 tf t0 (frame # rest) st = Inl ZeroDivisionError"
  by (simp add: Let_def split: prod.splits)

lemma update_statistics_total:
  "update_statistics tf fwp tpt =
     Inr \<lparr>stat_total_frames = tf, stat_frames_with_pose = fwp,
          stat_total_processing_time = tpt,
          stat_avg_fps = (if tpt > 0 then real_of_int tf / tpt else 0),
          stat_pose_detection_rate = (if tf > 0 then real_of_int fwp / real_of_int tf else 0)\<rparr>"
  by (simp add: update_statistics_def py_truediv_def)

lemma process_video_Inr:
  assumes "process_video pe clock save_video file_exists cap d0 = Inr res"
  shows "\<exists>st d1. process_frames pe clock save_video (py_int (prop_fps cap))
                   (py_int (prop_frame_count cap)) (clock 0) (cap_frames cap)
                   \<lparr>frame_data = [], frame_count = 0, pose_detected_frames = 0,
                    video_out = [], detector = d1, ticks = 1\<rparr> = Inr st
          \<and> frame_records res = frame_data st
          \<and> annotated_frames res = video_out st"
  using assms
  by (auto simp: process_video_def Let_def update_statistics_total
           split: if_splits prod.splits sum.splits)

lemma process_video_after_loop:
  assumes "file_exists" and "pe_initialize pe d0 = (True, d1)" and "is_opened cap"
    and "process_frames pe clock save_video (py_int (prop_fps cap))
           (py_int (prop_frame_count cap)) (clock 0) (cap_frames cap)
           \<lparr>frame_data = [], frame_count = 0, pose_detected_frames = 0,
            video_out = [], detector = d1, ticks = 1\<rparr> = Inr st"
  shows "process_video pe clock save_video file_exists cap d0 =
           Inr \<lparr>statistics =
                  \<lparr>stat_total_frames = py_int (prop_frame_count cap),
                   stat_frames_with_pose = pose_detected_frames st,
                   stat_total_processing_time = clock (ticks st) - clock 0,
                   stat_avg_fps =
                     (if clock (ticks st) - clock 0 > 0
                      then real_of_int (py_int (prop_frame_count cap)) / (clock (ticks st) - clock 0)
                      else 0),
                   stat_pose_detection_rate =
                     (if py_int (prop_frame_count cap) > 0
                      then real_of_int (pose_detected_frames st)
                             / real_of_int (py_int (prop_frame_count cap))
                      else 0)\<rparr>,
                frame_records = frame_data st, annotated_frames = video_out st\<rparr>"
  using assms by (simp add: process_video_def Let_def update_statistics_total)

lemma process_video_frame_records:
  assumes "process_video pe clock save_video file_exists cap d0 = Inr res"
  shows "length (frame_records res) = length (cap_frames cap)
     \<and> (\<forall>i < length (cap_frames cap).
           frame_number (frame_records res ! i) = int i
         \<and> timestamp (frame_records res ! i) = real i / real_of_int (py_int (prop_fps cap)))"
proof -
  from process_video_Inr [OF assms] obtain st d1 where
    run: "process_frames pe clock save_video (py_int (prop_fps cap))
                   (py_int (prop_frame_count cap)) (clock 0) (cap_frames cap)
                   \<lparr>frame_data = [], frame_count = 0, pose_detected_frames = 0,
                    video_out = [], detector = d1, ticks = 1\<rparr> = Inr st"
    and fr: "frame_records res = frame_data st"
    by blast
  from process_frames_Inr [OF run] show ?thesis unfolding fr by auto
qed

lemma process_video_returns:
  assumes "file_exists" and "fst (pe_initialize pe d0)" and "is_opened cap"
    and "py_int (prop_fps cap) \<noteq> 0"
    and "py_int (prop_frame_count cap) \<noteq> 0 \<or> length (cap_frames cap) < 100"
  shows "\<exists>res. process_video pe clock save_video file_exists cap d0 = Inr res"
proof -
  obtain ok d1 where i: "pe_initialize pe d0 = (ok, d1)" by (cases "pe_initialize pe d0")
  with assms(2) have ok by simp
  from assms(5) have "py_int (prop_frame_count cap) \<noteq> 0
      \<or> (0 \<le> frame_count \<lparr>frame_data = [], frame_count = 0, pose_detected_frames = 0,
                    video_out = [], detector = d1, ticks = 1\<rparr>
         \<and> frame_count \<lparr>frame_data = [], frame_count = 0, pose_detected_frames = 0,
                    video_out = [], detector = d1, ticks = 1\<rparr> + int (length (cap_frames cap)) < 100)"
    by auto
  from process_frames_returns [OF assms(4) this]
  obtain st where "process_frames pe clock save_video (py_int (prop_fps cap))
                   (py_int (prop_frame_count cap)) (clock 0) (cap_frames cap)
                   \<lparr>frame_data = [], frame_count = 0, pose_detected_frames = 0,
                    video_out = [], detector = d1, ticks = 1\<rparr> = Inr st"
    by blast
  with assms(1,3) i \<open>ok\<close> show ?thesis
    by (simp add: process_video_def Let_def update_statistics_total)
qed


text \<open>
  Claim C2 (as amended). Whenever the frame loop of a pass completes, the pass returns
  its statistics: neither division can fault, whatever the values (the update of the
  statistics never raises), in particular not when \<open>total_frames = 0\<close> or when the
  duration is 0. In the finalized statistics \<open>total_frames\<close> is the frame count the
  container reports; the detection rate is \<open>frames_with_pose / total_frames\<close> when
  \<open>total_frames > 0\<close> and 0 otherwise, so it is never negative, it is 0 when
  \<open>total_frames = 0\<close>, and it is at most 1 provided \<open>frames_with_pose \<le> total_frames\<close>
  (the number of frames with a pose never exceeds the number of decoded frames); the
  average throughput is \<open>total_frames / total_processing_time\<close> when the duration is
  positive and 0 otherwise.
\<close>

theorem statistics_guarded:
  assumes "file_exists" and "pe_initialize pe d0 = (True, d1)" and "is_opened cap"
    and "process_frames pe clock save_video (py_int (prop_fps cap))
           (py_int (prop_frame_count cap)) (clock 0) (cap_frames cap)
           \<lparr>frame_data = [], frame_count = 0, pose_detected_frames = 0,
            video_out = [], detector = d1, ticks = 1\<rparr> = Inr st"
  shows "\<exists>res. process_video pe clock save_video file_exists cap d0 = Inr res
     \<and> stat_total_frames (statistics res) = py_int (prop_frame_count cap)
     \<and> stat_frames_with_pose (statistics res) = pose_detected_frames st
     \<and> stat_total_processing_time (statistics res) = clock (ticks st) - clock 0
     \<and> 0 \<le> stat_frames_with_pose (statistics res)
     \<and> stat_frames_with_pose (statistics res) \<le> int (length (cap_frames cap))
     \<and> stat_pose_detection_rate (statistics res) =
          (if stat_total_frames (statistics res) > 0
           then real_of_int (stat_frames_with_pose (statistics res))
                  / real_of_int (stat_total_frames (statistics res))
           else 0)
     \<and> 0 \<le> stat_pose_detection_rate (statistics res)
     \<and> (stat_frames_with_pose (statistics res) \<le> stat_total_frames (statistics res)
          \<longrightarrow> stat_pose_detection_rate (statistics res) \<le> 1)
     \<and> (stat_total_frames (statistics res) = 0 \<longrightarrow> stat_pose_detection_rate (statistics res) = 0)
     \<and> stat_avg_fps (statistics res) =
          (if stat_total_processing_time (statistics res) > 0
           then real_of_int (stat_total_frames (statistics res))
                  / stat_total_processing_time (statistics res)
           else 0)
     \<and> (stat_total_processing_time (statistics res) = 0 \<longrightarrow> stat_avg_fps (statistics res) = 0)
     \<and> (\<forall>tf fwp tpt. \<exists>stats. update_statistics tf fwp tpt = Inr stats)"
proof -
  note run = process_video_after_loop [OF assms]
  from process_frames_Inr [OF assms(4)]
  have lo: "0 \<le> pose_detected_frames st"
    and hi: "pose_detected_frames st \<le> int (length (cap_frames cap))"
    by auto
  have up: "\<forall>tf fwp tpt. \<exists>stats. update_statistics tf fwp tpt = Inr stats"
    by (simp add: update_statistics_total)
  from lo hi up show ?thesis unfolding run by simp
qed

theorem statistics_guarded_witness:
  "pe_initialize \<lparr>pe_initialize = (\<lambda>d. (True, d)),
        pe_detect_pose = (\<lambda>d (f::nat). (if f = 0 then None else Some [(''keypoints'', f)], d)),
        pe_draw_pose = (\<lambda>f p. f), pe_cleanup = (\<lambda>d. d)\<rparr> () = (True, ())
   \<and> is_opened \<lparr>is_opened = True, prop_fps = 30, prop_frame_width = 640,
                 prop_frame_height = 480, prop_frame_count = 0, cap_frames = [5 :: nat]\<rparr>
   \<and> (\<exists>res. process_video
          \<lparr>pe_initialize = (\<lambda>d. (True, d)),
           pe_detect_pose = (\<lambda>d (f::nat). (if f = 0 then None else Some [(''keypoints'', f)], d)),
           pe_draw_pose = (\<lambda>f p. f), pe_cleanup = (\<lambda>d. d)\<rparr>
          (\<lambda>k. 0) False True
          \<lparr>is_opened = True, prop_fps = 30, prop_frame_width = 640, prop_frame_height = 480,
           prop_frame_count = 0, cap_frames = [5 :: nat]\<rparr> ()
        = Inr res
        \<and> stat_total_frames (statistics res) = 0
        \<and> stat_total_processing_time (statistics res) = 0
        \<and> stat_frames_with_pose (statistics res) = 1
        \<and> stat_pose_detection_rate (statistics res) = 0
        \<and> stat_avg_fps (statistics res) = 0)"
proof -
  let ?pe = "\<lparr>pe_initialize = (\<lambda>d. (True, d)),
        pe_detect_pose = (\<lambda>d f. (if f = 0 then None else Some [(''keypoints'', f)], d)),
        pe_draw_pose = (\<lambda>f p. f), pe_cleanup = (\<lambda>d. d)\<rparr>
        :: (unit, nat, nat) pose_estimator"
  let ?cap = "\<lparr>is_opened = True, prop_fps = 30, prop_frame_width = 640,
                 prop_frame_height = 480, prop_frame_count = 0, cap_frames = [5 :: nat]\<rparr>"
  let ?clock = "\<lambda>k::nat. 0::real"
  let ?st = "\<lparr>frame_data = [\<lparr>frame_number = 0, timestamp = 0, pose_detected = True,
                               processing_time = 0, pose_data = Some [(''keypoints'', 5::nat)]\<rparr>],
              frame_count = 1, pose_detected_frames = 1, video_out = [] :: nat list,
              detector = (), ticks = 3\<rparr>"
  have i: "pe_initialize ?pe () = (True, ())" by simp
  have o: "is_opened ?cap" by simp
  have l: "process_frames ?pe ?clock False (py_int (prop_fps ?cap))
             (py_int (prop_frame_count ?cap)) (?clock 0) (cap_frames ?cap)
             \<lparr>frame_data = [], frame_count = 0, pose_detected_frames = 0,
              video_out = [], detector = (), ticks = 1\<rparr> = Inr ?st"
    by (simp add: py_int_def Let_def)
  from statistics_guarded [OF TrueI i o l]
  obtain res where
    "process_video ?pe ?clock False True ?cap () = Inr res"
    "stat_total_frames (statistics res) = py_int (prop_frame_count ?cap)"
    "stat_frames_with_pose (statistics res) = pose_detected_frames ?st"
    "stat_total_processing_time (statistics res) = ?clock (ticks ?st) - ?clock 0"
    "stat_total_frames (statistics res) = 0 \<longrightarrow> stat_pose_detection_rate (statistics res) = 0"
    "stat_total_processing_time (statistics res) = 0 \<longrightarrow> stat_avg_fps (statistics res) = 0"
    by blast
  then have f: "process_video ?pe ?clock False True ?cap () = Inr res
        \<and> stat_total_frames (statistics res) = 0
        \<and> stat_total_processing_time (statistics res) = 0
        \<and> stat_frames_with_pose (statistics res) = 1
        \<and> stat_pose_detection_rate (statistics res) = 0
        \<and> stat_avg_fps (statistics res) = 0"
    by (simp add: py_int_def)
  show ?thesis
    by (rule conjI [OF i], rule conjI [OF o], rule exI [of _ res], rule f)
qed

text \<open>
  The claim as first stated bounds the detection rate by 1 whenever \<open>total_frames > 0\<close>.
  When the container reports one frame and two frames decode, each with a pose, the
  pass completes with \<open>total_frames = 1\<close>, \<open>frames_with_pose = 2\<close> and the rate 2.
\<close>

theorem detection_rate_above_one:
  "\<exists>res. process_video
     \<lparr>pe_initialize = (\<lambda>d. (True, d)),
      pe_detect_pose = (\<lambda>d f. (Some [(''keypoints'', f)], d)),
      pe_draw_pose = (\<lambda>f p. f), pe_cleanup = (\<lambda>d. d)\<rparr>
     (\<lambda>k. real k) False True
     \<lparr>is_opened = True, prop_fps = 30, prop_frame_width = 640, prop_frame_height = 480,
      prop_frame_count = 1, cap_frames = [10, 20 :: nat]\<rparr> ()
   = Inr res
   \<and> stat_total_frames (statistics res) = 1
   \<and> stat_frames_with_pose (statistics res) = 2
   \<and> stat_pose_detection_rate (statistics res) = 2"
  by (simp add: process_video_def py_int_def update_statistics_total Let_def)

text \<open>
  Claim C5. For every video whose decode yields N frames the engine is claimed to
  produce N frame records numbered from 0. For a video whose container reports a frame
  count of 0 and which decodes 100 frames, at a frame rate of 30, the progress report
  after the hundredth frame divides by \<open>total_frames\<close>: the pass ends in
  \<^verbatim>\<open>ZeroDivisionError\<close> and produces no record sequence at all.
\<close>

theorem process_video_zero_frame_count_faults:
  "process_video
     \<lparr>pe_initialize = (\<lambda>d. (True, d)), pe_detect_pose = detect, pe_draw_pose = draw,
      pe_cleanup = cleanup\<rparr>
     clock save_video True
     \<lparr>is_opened = True, prop_fps = 30, prop_frame_width = 640, prop_frame_height = 480,
      prop_frame_count = 0, cap_frames = replicate 100 frame\<rparr> d0
   = Inl ZeroDivisionError"
proof -
  have "process_frames \<lparr>pe_initialize = (\<lambda>d. (True, d)), pe_detect_pose = detect, pe_draw_pose = draw,
      pe_cleanup = cleanup\<rparr> clock save_video 30 0 (clock 0) (replicate 100 frame)
        \<lparr>frame_data = [], frame_count = 0, pose_detected_frames = 0,
                      video_out = [], detector = d0, ticks = 1\<rparr> = Inl ZeroDivisionError"
    by (rule process_frames_zero_total_faults) simp_all
  then show ?thesis
    by (simp add: process_video_def py_int_def Let_def)
qed

section \<open>Properties of the Gemini analyzer\<close>

text \<open>
  Claim C8 (as amended). \<^verbatim>\<open>cleanup_video\<close> always returns a flag and never raises. On a
  handle that is not tracked (never uploaded, or already removed) it returns \<^verbatim>\<open>True\<close>
  and changes nothing. On a tracked handle it calls the remote deletion once: when that
  succeeds it returns \<^verbatim>\<open>True\<close> and removes the handle from its bookkeeping, when that
  fails it returns \<^verbatim>\<open>False\<close> and the handle stays tracked. So after a call that returned
  \<^verbatim>\<open>True\<close> the handle is no longer tracked and a second call on the same handle returns
  \<^verbatim>\<open>True\<close> again and changes nothing; after a call that returned \<^verbatim>\<open>False\<close> the
  bookkeeping is unchanged.
\<close>

theorem cleanup_video_idempotent:
  "(uploaded_files g video_ref = None \<longrightarrow> cleanup_video delete_file video_ref g = (True, g))
   \<and> (\<forall>uploaded_file.
         uploaded_files g video_ref = Some uploaded_file
         \<and> fst (delete_file (remote g) uploaded_file) \<longrightarrow>
           cleanup_video delete_file video_ref g
             = (True, g\<lparr>uploaded_files := (uploaded_files g)(video_ref := None),
                        remote := snd (delete_file (remote g) uploaded_file)\<rparr>))
   \<and> (\<forall>uploaded_file.
         uploaded_files g video_ref = Some uploaded_file
         \<and> \<not> fst (delete_file (remote g) uploaded_file) \<longrightarrow>
           cleanup_video delete_file video_ref g
             = (False, g\<lparr>remote := snd (delete_file (remote g) uploaded_file)\<rparr>)
         \<and> uploaded_files (snd (cleanup_video delete_file video_ref g)) video_ref
             = Some uploaded_file)
   \<and> (fst (cleanup_video delete_file video_ref g) \<longrightarrow>
        uploaded_files (snd (cleanup_video delete_file video_ref g)) video_ref = None
      \<and> cleanup_video delete_file' video_ref (snd (cleanup_video delete_file video_ref g))
          = (True, snd (cleanup_video delete_file video_ref g)))
   \<and> (\<not> fst (cleanup_video delete_file video_ref g) \<longrightarrow>
        uploaded_files (snd (cleanup_video delete_file video_ref g)) = uploaded_files g)"
  by (auto simp: cleanup_video_def Let_def split: option.splits prod.splits)

theorem cleanup_video_idempotent_witness:
  "uploaded_files \<lparr>is_initialized = True, uploaded_files = [''files/a'' \<mapsto> (7::nat)], remote = ()\<rparr>
     ''files/b'' = None
   \<and> cleanup_video (\<lambda>r f. (True, r)) ''files/b''
        \<lparr>is_initialized = True, uploaded_files = [''files/a'' \<mapsto> (7::nat)], remote = ()\<rparr>
      = (True, \<lparr>is_initialized = True, uploaded_files = [''files/a'' \<mapsto> (7::nat)], remote = ()\<rparr>)
   \<and> fst (cleanup_video (\<lambda>r f. (True, r)) ''files/a''
        \<lparr>is_initialized = True, uploaded_files = [''files/a'' \<mapsto> (7::nat)], remote = ()\<rparr>)
   \<and> fst (cleanup_video (\<lambda>r f. (True, r)) ''files/a''
        (snd (cleanup_video (\<lambda>r f. (True, r)) ''files/a''
          \<lparr>is_initialized = True, uploaded_files = [''files/a'' \<mapsto> (7::nat)], remote = ()\<rparr>)))
   \<and> uploaded_files \<lparr>is_initialized = True, uploaded_files = [''files/a'' \<mapsto> (7::nat)], remote = ()\<rparr>
       ''files/a'' = Some 7
   \<and> \<not> fst ((\<lambda>(r::unit) (f::nat). (False, r)) () 7)
   \<and> cleanup_video (\<lambda>r f. (False, r)) ''files/a''
        \<lparr>is_initialized = True, uploaded_files = [''files/a'' \<mapsto> (7::nat)], remote = ()\<rparr>
      = (False, \<lparr>is_initialized = True, uploaded_files = [''files/a'' \<mapsto> (7::nat)], remote = ()\<rparr>)
   \<and> uploaded_files (snd (cleanup_video (\<lambda>r f. (False, r)) ''files/a''
        \<lparr>is_initialized = True, uploaded_files = [''files/a'' \<mapsto> (7::nat)], remote = ()\<rparr>))
       ''files/a'' = Some 7"
proof -
  let ?g = "\<lparr>is_initialized = True, uploaded_files = [''files/a'' \<mapsto> (7::nat)], remote = ()\<rparr>"
  let ?d = "\<lambda>(r::unit) (f::nat). (True, r)"
  let ?e = "\<lambda>(r::unit) (f::nat). (False, r)"
  have a: "uploaded_files ?g ''files/b'' = None" by simp
  have b: "fst (cleanup_video ?d ''files/a'' ?g)" by (simp add: cleanup_video_def)
  have t: "uploaded_files ?g ''files/a'' = Some 7" by simp
  have n: "\<not> fst (?e (remote ?g) 7)" by simp
  from cleanup_video_idempotent [of ?g "''files/b''" ?d ?d] a
  have 1: "cleanup_video ?d ''files/b'' ?g = (True, ?g)" by blast
  from cleanup_video_idempotent [of ?g "''files/a''" ?d ?d] b
  have "cleanup_video ?d ''files/a'' (snd (cleanup_video ?d ''files/a'' ?g))
          = (True, snd (cleanup_video ?d ''files/a'' ?g))" by blast
  then have 2: "fst (cleanup_video ?d ''files/a'' (snd (cleanup_video ?d ''files/a'' ?g)))"
    by simp
  from cleanup_video_idempotent [of ?g "''files/a''" ?e ?e] t n
  have 3: "cleanup_video ?e ''files/a'' ?g = (False, ?g\<lparr>remote := snd (?e (remote ?g) 7)\<rparr>)
           \<and> uploaded_files (snd (cleanup_video ?e ''files/a'' ?g)) ''files/a'' = Some 7"
    by blast
  from a b t 1 2 3 show ?thesis by simp
qed

text \<open>
  The claim as first stated promises \<^verbatim>\<open>True\<close> for two calls in a row on any handle.
  For a tracked handle whose remote deletion fails, both calls return \<^verbatim>\<open>False\<close>.
\<close>

theorem cleanup_video_remote_failure:
  "cleanup_video (\<lambda>r f. (False, r)) ''files/a''
     \<lparr>is_initialized = True, uploaded_files = [''files/a'' \<mapsto> (7::nat)], remote = ()\<rparr>
   = (False, \<lparr>is_initialized = True, uploaded_files = [''files/a'' \<mapsto> (7::nat)], remote = ()\<rparr>)
   \<and> fst (cleanup_video (\<lambda>r f. (False, r)) ''files/a''
        (snd (cleanup_video (\<lambda>r f. (False, r)) ''files/a''
           \<lparr>is_initialized = True, uploaded_files = [''files/a'' \<mapsto> (7::nat)], remote = ()\<rparr>)))
     = False"
  by (simp add: cleanup_video_def)

section \<open>Properties of the orchestration pipeline\<close>








lemma batch_loop_snoc:
  "batch_loop stem env va cl (cs @ [c]) res p =
     (let (r1, p1) = batch_loop stem env va cl cs res p;
          (outcome, p2) = analyze_video stem env va (cfg_video_path c) (cfg_prompt c) cl p1
      in (AList.update (stem (cfg_video_path c)) outcome r1, p2))"
  by (induction cs arbitrary: res p) (simp_all add: Let_def split: prod.splits)

lemma batch_loop_snoc_results:
  "fst (batch_loop stem env va cl (cs @ [c]) [] p) =
     AList.update (stem (cfg_video_path c))
       (batch_outcome stem env va cl (cs @ [c]) p (length cs))
       (fst (batch_loop stem env va cl cs [] p))"
  by (simp add: batch_loop_snoc batch_outcome_def Let_def split: prod.splits)

lemma batch_outcome_prefix:
  assumes "l < length cs"
  shows "batch_outcome stem env va cl (cs @ [c]) p l = batch_outcome stem env va cl cs p l"
  using assms by (simp add: batch_outcome_def nth_append)

lemma batch_keys:
  "fst ` set (fst (batch_loop stem env va cl cs [] p)) = (\<lambda>c. stem (cfg_video_path c)) ` set cs"
  by (induction cs rule: rev_induct) (auto simp: batch_loop_snoc_results dom_update)

lemma batch_distinct_keys:
  "distinct (map fst (fst (batch_loop stem env va cl cs [] p)))"
  by (induction cs rule: rev_induct) (simp_all add: batch_loop_snoc_results distinct_update)

lemma batch_length:
  "length (fst (batch_loop stem env va cl cs [] p)) = card ((\<lambda>c. stem (cfg_video_path c)) ` set cs)"
proof -
  have "length (fst (batch_loop stem env va cl cs [] p))
          = length (map fst (fst (batch_loop stem env va cl cs [] p)))" by simp
  also have "\<dots> = card (set (map fst (fst (batch_loop stem env va cl cs [] p))))"
    by (rule distinct_card [symmetric]) (rule batch_distinct_keys)
  also have "\<dots> = card ((\<lambda>c. stem (cfg_video_path c)) ` set cs)"
    by (simp add: batch_keys)
  finally show ?thesis .
qed

lemma batch_last_wins:
  assumes "i < length cs"
  shows "\<exists>l. i \<le> l \<and> l < length cs
           \<and> stem (cfg_video_path (cs ! l)) = stem (cfg_video_path (cs ! i))
           \<and> map_of (fst (batch_loop stem env va cl cs [] p)) (stem (cfg_video_path (cs ! i)))
               = Some (batch_outcome stem env va cl cs p l)"
  using assms
proof (induction cs rule: rev_induct)
  case Nil
  then show ?case by simp
next
  case (snoc c cs)
  show ?case
  proof (cases "stem (cfg_video_path c) = stem (cfg_video_path ((cs @ [c]) ! i))")
    case True
    have "map_of (fst (batch_loop stem env va cl (cs @ [c]) [] p))
            (stem (cfg_video_path ((cs @ [c]) ! i)))
          = Some (batch_outcome stem env va cl (cs @ [c]) p (length cs))"
      unfolding batch_loop_snoc_results by (simp add: update_conv True [symmetric])
    with True snoc.prems show ?thesis
      by (intro exI [of _ "length cs"]) simp
  next
    case False
    with snoc.prems have i: "i < length cs"
      by (cases "i = length cs") auto
    from snoc.IH [OF i] obtain l where l: "i \<le> l" "l < length cs"
      "stem (cfg_video_path (cs ! l)) = stem (cfg_video_path (cs ! i))"
      "map_of (fst (batch_loop stem env va cl cs [] p)) (stem (cfg_video_path (cs ! i)))
               = Some (batch_outcome stem env va cl cs p l)"
      by blast
    from False i have ne: "stem (cfg_video_path c) \<noteq> stem (cfg_video_path (cs ! i))"
      by (simp add: nth_append)
    have "map_of (fst (batch_loop stem env va cl (cs @ [c]) [] p))
            (stem (cfg_video_path ((cs @ [c]) ! i)))
          = Some (batch_outcome stem env va cl (cs @ [c]) p l)"
      unfolding batch_loop_snoc_results using ne i l
      by (simp add: update_conv nth_append batch_outcome_prefix)
    with l i show ?thesis
      by (intro exI [of _ l]) (simp add: nth_append)
  qed
qed

lemma batch_analyze_results:
  "fst (batch_analyze stem env va cs cl p) = fst (batch_loop stem env va cl cs [] p)"
  by (simp add: batch_analyze_def Let_def split: prod.splits)

lemma analyze_video_upload_fails:
  assumes "path_exists env video_path"
    and "va_initialize va (analyzer p) = (True, a1)"
    and "fst (va_upload_video va video_path a1) = None"
  shows "fst (analyze_video stem env va video_path prompt cleanup_after p)
           = Inl (RuntimeError ''Failed to upload video'')"
  using assms
  by (cases "va_upload_video va video_path a1") (simp add: analyze_video_def Let_def)


lemma path_stem_examples:
  "path_stem ''a/one.mp4'' = ''one''" "path_stem ''b/two.mp4'' = ''two''"
  "path_stem ''c/three.mp4'' = ''three''"
  "path_stem ''a/clip.mp4'' = ''clip''" "path_stem ''b/clip.mp4'' = ''clip''"
  "path_stem ''c/clip.mp4'' = ''clip''"
  by (simp_all add: path_stem_def path_name_def Let_def)





text \<open>
  Claim C9 (as amended). In batch mode every configuration is processed and none halts
  the batch. When the video paths have pairwise distinct stems, the batch result has
  one entry per configuration, and the entry of each item is that item's own outcome:
  its analysis, or the error it raised. In particular an item whose upload fails gets
  the error entry \<^verbatim>\<open>Failed to upload video\<close>, and the items around it keep theirs.
\<close>

theorem batch_items_independent:
  assumes "distinct (map (\<lambda>c. stem (cfg_video_path c)) cs)"
  shows "length (fst (batch_analyze stem env va cs cl p)) = length cs
     \<and> (\<forall>i. i < length cs \<longrightarrow>
           map_of (fst (batch_analyze stem env va cs cl p)) (stem (cfg_video_path (cs ! i)))
             = Some (batch_outcome stem env va cl cs p i))
     \<and> (\<forall>i a1. i < length cs
           \<and> path_exists env (cfg_video_path (cs ! i))
           \<and> va_initialize va (analyzer (snd (batch_loop stem env va cl (take i cs) [] p))) = (True, a1)
           \<and> fst (va_upload_video va (cfg_video_path (cs ! i)) a1) = None \<longrightarrow>
           map_of (fst (batch_analyze stem env va cs cl p)) (stem (cfg_video_path (cs ! i)))
             = Some (Inl (RuntimeError ''Failed to upload video'')))"
proof -
  have len: "length (fst (batch_analyze stem env va cs cl p)) = length cs"
  proof -
    have "card ((\<lambda>c. stem (cfg_video_path c)) ` set cs)
            = card (set (map (\<lambda>c. stem (cfg_video_path c)) cs))" by simp
    also have "\<dots> = length (map (\<lambda>c. stem (cfg_video_path c)) cs)"
      by (rule distinct_card [OF assms])
    finally show ?thesis by (simp add: batch_analyze_results batch_length)
  qed
  have own: "map_of (fst (batch_analyze stem env va cs cl p)) (stem (cfg_video_path (cs ! i)))
             = Some (batch_outcome stem env va cl cs p i)" if i: "i < length cs" for i
  proof -
    from batch_last_wins [OF i, of stem env va cl p] obtain l where
      l: "l < length cs" "stem (cfg_video_path (cs ! l)) = stem (cfg_video_path (cs ! i))"
      and m: "map_of (fst (batch_loop stem env va cl cs [] p)) (stem (cfg_video_path (cs ! i)))
               = Some (batch_outcome stem env va cl cs p l)"
      by blast
    from l i assms have "l = i"
      by (auto simp: distinct_conv_nth)
    with m show ?thesis by (simp add: batch_analyze_results)
  qed
  have err: "map_of (fst (batch_analyze stem env va cs cl p)) (stem (cfg_video_path (cs ! i)))
             = Some (Inl (RuntimeError ''Failed to upload video''))"
    if "i < length cs" "path_exists env (cfg_video_path (cs ! i))"
       "va_initialize va (analyzer (snd (batch_loop stem env va cl (take i cs) [] p))) = (True, a1)"
       "fst (va_upload_video va (cfg_video_path (cs ! i)) a1) = None" for i a1
    using own [OF that(1)] analyze_video_upload_fails [OF that(2,3,4)]
    by (simp add: batch_outcome_def)
  from len own err show ?thesis by blast
qed

theorem batch_items_independent_witness:
  "distinct (map (\<lambda>c. path_stem (cfg_video_path c))
      [\<lparr>cfg_video_path = ''a/one.mp4'', cfg_prompt = ''p1''\<rparr>,
       \<lparr>cfg_video_path = ''b/two.mp4'', cfg_prompt = ''p2''\<rparr>,
       \<lparr>cfg_video_path = ''c/three.mp4'', cfg_prompt = ''p3''\<rparr>])
   \<and> length (fst (batch_analyze path_stem writable_env example_analyzer
      [\<lparr>cfg_video_path = ''a/one.mp4'', cfg_prompt = ''p1''\<rparr>,
       \<lparr>cfg_video_path = ''b/two.mp4'', cfg_prompt = ''p2''\<rparr>,
       \<lparr>cfg_video_path = ''c/three.mp4'', cfg_prompt = ''p3''\<rparr>] True new_pipeline)) = 3
   \<and> fst (batch_analyze path_stem writable_env example_analyzer
      [\<lparr>cfg_video_path = ''a/one.mp4'', cfg_prompt = ''p1''\<rparr>,
       \<lparr>cfg_video_path = ''b/two.mp4'', cfg_prompt = ''p2''\<rparr>,
       \<lparr>cfg_video_path = ''c/three.mp4'', cfg_prompt = ''p3''\<rparr>] True new_pipeline)
     = [(''one'', Inr \<lparr>res_video_path = ''a/one.mp4'', res_analyzer_info = ''example'',
                       res_prompt = ''p1'', res_analysis = [(''analysis'', ''p1'')],
                       res_additional_data_provided = False\<rparr>),
        (''two'', Inl (RuntimeError ''Failed to upload video'')),
        (''three'', Inr \<lparr>res_video_path = ''c/three.mp4'', res_analyzer_info = ''example'',
                       res_prompt = ''p3'', res_analysis = [(''analysis'', ''p3'')],
                       res_additional_data_provided = False\<rparr>)]"
proof -
  let ?cs = "[\<lparr>cfg_video_path = ''a/one.mp4'', cfg_prompt = ''p1''\<rparr>,
       \<lparr>cfg_video_path = ''b/two.mp4'', cfg_prompt = ''p2''\<rparr>,
       \<lparr>cfg_video_path = ''c/three.mp4'', cfg_prompt = ''p3''\<rparr>]"
  have d: "distinct (map (\<lambda>c. path_stem (cfg_video_path c)) ?cs)"
    by (simp add: path_stem_examples)
  from batch_items_independent [OF d, of writable_env example_analyzer True new_pipeline]
  have len: "length (fst (batch_analyze path_stem writable_env example_analyzer ?cs True
                            new_pipeline)) = 3"
    by simp
  have ev: "fst (batch_analyze path_stem writable_env example_analyzer ?cs True new_pipeline)
     = [(''one'', Inr \<lparr>res_video_path = ''a/one.mp4'', res_analyzer_info = ''example'',
                       res_prompt = ''p1'', res_analysis = [(''analysis'', ''p1'')],
                       res_additional_data_provided = False\<rparr>),
        (''two'', Inl (RuntimeError ''Failed to upload video'')),
        (''three'', Inr \<lparr>res_video_path = ''c/three.mp4'', res_analyzer_info = ''example'',
                       res_prompt = ''p3'', res_analysis = [(''analysis'', ''p3'')],
                       res_additional_data_provided = False\<rparr>)]"
    by (simp add: batch_analyze_def analyze_video_def save_analysis_result_def
          example_analyzer_def writable_env_def new_pipeline_def path_stem_examples Let_def)
  from d len ev show ?thesis by blast
qed

text \<open>
  The claim as first stated holds for any three configurations. For three videos with
  the same file name in different directories, the second upload failing, the batch
  result has a single entry, the third item's analysis: neither the first item's
  analysis nor the second item's error is in it.
\<close>

theorem batch_same_stem_loses_entries:
  "fst (batch_analyze path_stem writable_env example_analyzer
      [\<lparr>cfg_video_path = ''a/clip.mp4'', cfg_prompt = ''p1''\<rparr>,
       \<lparr>cfg_video_path = ''b/clip.mp4'', cfg_prompt = ''p2''\<rparr>,
       \<lparr>cfg_video_path = ''c/clip.mp4'', cfg_prompt = ''p3''\<rparr>] True new_pipeline)
     = [(''clip'', Inr \<lparr>res_video_path = ''c/clip.mp4'', res_analyzer_info = ''example'',
                       res_prompt = ''p3'', res_analysis = [(''analysis'', ''p3'')],
                       res_additional_data_provided = False\<rparr>)]"
  by (simp add: batch_analyze_def analyze_video_def save_analysis_result_def
        example_analyzer_def writable_env_def new_pipeline_def path_stem_examples Let_def)

text \<open>
  Claim C10. The batch result is keyed by the stem of the video path. For two
  configurations at positions \<open>i < j\<close> whose paths share a stem, the result has fewer
  entries than there are configurations (one per distinct stem), and the entry under
  the shared stem is the outcome of an item at position \<open>j\<close> or later (the last one
  with that stem), so the earlier item's entry has been overwritten.
\<close>

theorem batch_keyed_by_stem:
  assumes "i < j" and "j < length cs"
    and "stem (cfg_video_path (cs ! i)) = stem (cfg_video_path (cs ! j))"
  shows "length (fst (batch_analyze stem env va cs cl p))
           = card ((\<lambda>c. stem (cfg_video_path c)) ` set cs)
     \<and> length (fst (batch_analyze stem env va cs cl p)) < length cs
     \<and> (\<exists>l. j \<le> l \<and> l < length cs
           \<and> stem (cfg_video_path (cs ! l)) = stem (cfg_video_path (cs ! i))
           \<and> map_of (fst (batch_analyze stem env va cs cl p)) (stem (cfg_video_path (cs ! i)))
               = Some (batch_outcome stem env va cl cs p l))"
proof -
  have len: "length (fst (batch_analyze stem env va cs cl p))
           = card ((\<lambda>c. stem (cfg_video_path c)) ` set cs)"
    by (simp add: batch_analyze_results batch_length)
  have nd: "\<not> distinct (map (\<lambda>c. stem (cfg_video_path c)) cs)"
  proof
    let ?ks = "map (\<lambda>c. stem (cfg_video_path c)) cs"
    assume d: "distinct ?ks"
    from assms(1,2) have "i < length ?ks" and "j < length ?ks" and "i \<noteq> j"
      by simp_all
    with d have "?ks ! i \<noteq> ?ks ! j"
      using nth_eq_iff_index_eq by blast
    moreover from assms have "?ks ! i = ?ks ! j" by simp
    ultimately show False by blast
  qed
  have "card (set (map (\<lambda>c. stem (cfg_video_path c)) cs))
          \<le> length (map (\<lambda>c. stem (cfg_video_path c)) cs)"
    by (rule card_length)
  moreover have "card (set (map (\<lambda>c. stem (cfg_video_path c)) cs))
          \<noteq> length (map (\<lambda>c. stem (cfg_video_path c)) cs)"
    using nd card_distinct by blast
  ultimately have lt: "length (fst (batch_analyze stem env va cs cl p)) < length cs"
    unfolding len by simp
  from batch_last_wins [OF assms(2), of stem env va cl p] obtain l where
    "j \<le> l" "l < length cs" "stem (cfg_video_path (cs ! l)) = stem (cfg_video_path (cs ! j))"
    "map_of (fst (batch_loop stem env va cl cs [] p)) (stem (cfg_video_path (cs ! j)))
               = Some (batch_outcome stem env va cl cs p l)"
    by blast
  with assms(3) have "\<exists>l. j \<le> l \<and> l < length cs
           \<and> stem (cfg_video_path (cs ! l)) = stem (cfg_video_path (cs ! i))
           \<and> map_of (fst (batch_analyze stem env va cs cl p)) (stem (cfg_video_path (cs ! i)))
               = Some (batch_outcome stem env va cl cs p l)"
    by (auto simp: batch_analyze_results)
  with len lt show ?thesis by blast
qed

theorem batch_keyed_by_stem_witness:
  "(0::nat) < 1
   \<and> 1 < length [\<lparr>cfg_video_path = ''a/clip.mp4'', cfg_prompt = ''p1''\<rparr>,
                  \<lparr>cfg_video_path = ''b/clip.mp4'', cfg_prompt = ''p2''\<rparr>]
   \<and> path_stem ''a/clip.mp4'' = path_stem ''b/clip.mp4''
   \<and> length (fst (batch_analyze path_stem writable_env example_analyzer
        [\<lparr>cfg_video_path = ''a/clip.mp4'', cfg_prompt = ''p1''\<rparr>,
         \<lparr>cfg_video_path = ''b/clip.mp4'', cfg_prompt = ''p2''\<rparr>] True new_pipeline)) < 2
   \<and> fst (batch_analyze path_stem writable_env example_analyzer
        [\<lparr>cfg_video_path = ''a/clip.mp4'', cfg_prompt = ''p1''\<rparr>,
         \<lparr>cfg_video_path = ''b/clip.mp4'', cfg_prompt = ''p2''\<rparr>] True new_pipeline)
       = [(''clip'', Inl (RuntimeError ''Failed to upload video''))]"
proof -
  let ?cs = "[\<lparr>cfg_video_path = ''a/clip.mp4'', cfg_prompt = ''p1''\<rparr>,
              \<lparr>cfg_video_path = ''b/clip.mp4'', cfg_prompt = ''p2''\<rparr>]"
  have a: "(0::nat) < 1" and b: "1 < length ?cs" by simp_all
  have c: "path_stem (cfg_video_path (?cs ! 0)) = path_stem (cfg_video_path (?cs ! 1))"
    by (simp add: path_stem_examples)
  from batch_keyed_by_stem [OF a b c, of writable_env example_analyzer True new_pipeline]
  have lt: "length (fst (batch_analyze path_stem writable_env example_analyzer ?cs True
                           new_pipeline)) < 2"
    by simp
  have ev: "fst (batch_analyze path_stem writable_env example_analyzer ?cs True new_pipeline)
       = [(''clip'', Inl (RuntimeError ''Failed to upload video''))]"
    by (simp add: batch_analyze_def analyze_video_def save_analysis_result_def
          example_analyzer_def writable_env_def new_pipeline_def path_stem_examples Let_def)
  from a b c lt ev show ?thesis by simp
qed

end
